theory Spec2Isabelle
  imports Main "HOL-Library.AList" "HOL-Library.Char_ord" "HOL-Library.List_Lexorder"
begin

section \<open>Time values of the Go standard library\<close>

text \<open>
  The catalog stores \<^verbatim>\<open>time.Time\<close> values obtained from \<^verbatim>\<open>time.Now().UTC()\<close>, which
  carry no monotonic reading. An instant is modelled as the number of nanoseconds since
  Go's zero instant (January 1, year 1, 00:00:00 UTC), so the zero value of the struct
  is \<open>0\<close>. A \<^verbatim>\<open>time.Duration\<close> is a signed 64-bit count of nanoseconds.
\<close>

type_synonym Time = int
type_synonym Duration = int

definition IsZero :: "Time \<Rightarrow> bool" where
  "IsZero t = (t = 0)"

definition Before :: "Time \<Rightarrow> Time \<Rightarrow> bool" where
  "Before t u = (t < u)"

definition minDuration :: Duration where
  "minDuration = - (2 ^ 63)"

definition maxDuration :: Duration where
  "maxDuration = 2 ^ 63 - 1"

text \<open>\<^verbatim>\<open>t.Sub(u)\<close>: the difference, saturated at the ends of the 64-bit range.\<close>

definition Sub :: "Time \<Rightarrow> Time \<Rightarrow> Duration" where
  "Sub t u =
     (let d = t - u in
      if minDuration \<le> d \<and> d \<le> maxDuration then d
      else if Before t u then minDuration
      else maxDuration)"

definition Hour :: Duration where
  "Hour = 3600 * 1000000000"

definition DefaultProviderModelSnapshotStaleAfter :: Duration where
  "DefaultProviderModelSnapshotStaleAfter = 24 * Hour"

text \<open>
  \<^verbatim>\<open>d.Seconds()\<close> followed by the conversion to \<^verbatim>\<open>int64\<close>: the whole seconds of a
  duration, truncated toward zero. The source goes through a 64-bit float, which is
  exact for a duration of whole seconds such as the staleness threshold, the only
  duration it is applied to.
\<close>

definition SecondsInt64 :: "Duration \<Rightarrow> int" where
  "SecondsInt64 d = (if 0 \<le> d then d div 1000000000 else - ((- d) div 1000000000))"

section \<open>Data model of provider\_models\_health.go\<close>

text \<open>A provider identifier is an open string tag (\<^verbatim>\<open>schemas.ModelProvider\<close>).\<close>

type_synonym ModelProvider = string

text \<open>\<^verbatim>\<open>ProviderModelSource\<close> is a string type; the empty string is its zero value.\<close>

type_synonym ProviderModelSource = string

definition ProviderModelSourceUnknown :: ProviderModelSource where
  "ProviderModelSourceUnknown = ''unknown''"

definition ProviderModelSourcePricingCatalog :: ProviderModelSource where
  "ProviderModelSourcePricingCatalog = ''pricing_catalog''"

definition ProviderModelSourcePersistedSnapshot :: ProviderModelSource where
  "ProviderModelSourcePersistedSnapshot = ''persisted_snapshot''"

definition ProviderModelSourceDefaultSeed :: ProviderModelSource where
  "ProviderModelSourceDefaultSeed = ''default_seed''"

definition ProviderModelSourceAllowedModels :: ProviderModelSource where
  "ProviderModelSourceAllowedModels = ''allowed_models''"

definition ProviderModelSourceLiveDiscovery :: ProviderModelSource where
  "ProviderModelSourceLiveDiscovery = ''live_discovery''"

datatype ProviderModelHealthStatus =
    ProviderModelHealthUnknown
  | ProviderModelHealthHealthy
  | ProviderModelHealthStale
  | ProviderModelHealthError
  | ProviderModelHealthDegraded

record providerDiscoveryState =
  LastAttemptAt :: Time
  LastSuccessAt :: Time
  LastErrorAt :: Time
  LastError :: string
  LastModelsCount :: int

record providerModelHealthState =
  Filtered :: providerDiscoveryState
  Unfiltered :: providerDiscoveryState
  LastSnapshotUpdated :: Time

text \<open>The zero values Go yields for an absent map key.\<close>

definition zeroDiscoveryState :: providerDiscoveryState where
  "zeroDiscoveryState =
     \<lparr>LastAttemptAt = 0, LastSuccessAt = 0, LastErrorAt = 0, LastError = [],
      LastModelsCount = 0\<rparr>"

definition zeroHealthState :: providerModelHealthState where
  "zeroHealthState =
     \<lparr>Filtered = zeroDiscoveryState, Unfiltered = zeroDiscoveryState,
      LastSnapshotUpdated = 0\<rparr>"

text \<open>
  \<^verbatim>\<open>ProviderModelDiscoveryHealth\<close>: the optional timestamps are pointers in the source,
  \<open>None\<close> standing for nil.
\<close>

record ProviderModelDiscoveryHealth =
  dh_Status :: ProviderModelHealthStatus
  dh_LastAttemptAt :: "Time option"
  dh_LastSuccessAt :: "Time option"
  dh_LastErrorAt :: "Time option"
  dh_LastError :: string
  dh_LastModelsCount :: int

record ProviderModelSnapshotHealth =
  ph_Provider :: ModelProvider
  ph_Status :: ProviderModelHealthStatus
  ph_SnapshotModelCount :: int
  ph_FilteredModelCount :: int
  ph_UnfilteredModelCount :: int
  ph_FilteredSource :: ProviderModelSource
  ph_UnfilteredSource :: ProviderModelSource
  ph_LastSnapshotUpdated :: "Time option"
  ph_FilteredDiscovery :: ProviderModelDiscoveryHealth
  ph_UnfilteredDiscovery :: ProviderModelDiscoveryHealth

record ProviderModelSnapshotHealthSummary =
  TotalProviders :: int
  HealthyProviders :: int
  StaleProviders :: int
  ErrorProviders :: int
  DegradedProviders :: int
  UnknownProviders :: int

record ProviderModelSnapshotHealthReport =
  rp_Status :: ProviderModelHealthStatus
  rp_GeneratedAt :: Time
  rp_StaleAfterSeconds :: int
  rp_Summary :: ProviderModelSnapshotHealthSummary
  rp_Providers :: "ProviderModelSnapshotHealth list"

record persistedProviderModelHealthState =
  ps_Filtered :: providerDiscoveryState
  ps_Unfiltered :: providerDiscoveryState
  ps_LastSnapshotUpdated :: Time
  ps_FilteredSource :: ProviderModelSource
  ps_UnfilteredSource :: ProviderModelSource

section \<open>Status derivation and merging\<close>

definition toProviderModelDiscoveryHealth ::
    "providerDiscoveryState \<Rightarrow> Time \<Rightarrow> ProviderModelDiscoveryHealth" where
  "toProviderModelDiscoveryHealth state now =
     (let status =
        (if IsZero (LastAttemptAt state) then ProviderModelHealthUnknown
         else if \<not> IsZero (LastErrorAt state) \<and>
                 (IsZero (LastSuccessAt state) \<or>
                  \<not> Before (LastErrorAt state) (LastSuccessAt state))
           then ProviderModelHealthError
         else if IsZero (LastSuccessAt state) then ProviderModelHealthUnknown
         else if Sub now (LastSuccessAt state) > DefaultProviderModelSnapshotStaleAfter
           then ProviderModelHealthStale
         else ProviderModelHealthHealthy)
      in \<lparr>dh_Status = status,
          dh_LastAttemptAt =
            (if \<not> IsZero (LastAttemptAt state) then Some (LastAttemptAt state) else None),
          dh_LastSuccessAt =
            (if \<not> IsZero (LastSuccessAt state) then Some (LastSuccessAt state) else None),
          dh_LastErrorAt =
            (if \<not> IsZero (LastErrorAt state) then Some (LastErrorAt state) else None),
          dh_LastError = LastError state,
          dh_LastModelsCount = LastModelsCount state\<rparr>)"

definition mergeProviderHealthStatus ::
    "ProviderModelHealthStatus \<Rightarrow> ProviderModelHealthStatus \<Rightarrow> ProviderModelHealthStatus" where
  "mergeProviderHealthStatus filtered unfiltered =
     (if filtered = ProviderModelHealthError \<or> unfiltered = ProviderModelHealthError
        then ProviderModelHealthError
      else if filtered = ProviderModelHealthStale \<or> unfiltered = ProviderModelHealthStale
        then ProviderModelHealthStale
      else if filtered = ProviderModelHealthUnknown \<and> unfiltered = ProviderModelHealthUnknown
        then ProviderModelHealthUnknown
      else if filtered = ProviderModelHealthUnknown \<or> unfiltered = ProviderModelHealthUnknown
        then ProviderModelHealthDegraded
      else ProviderModelHealthHealthy)"

section \<open>Go maps\<close>

text \<open>
  A Go map is modelled as an association list read through \<open>map_of\<close>: the order of the
  list stands for the unspecified iteration order of \<^verbatim>\<open>range\<close>, reading an absent key
  yields the zero value of the element type, and a store replaces the binding of the key
  or adds one.
\<close>

type_synonym ('k, 'v) gomap = "('k \<times> 'v) list"

definition mapGet :: "'v \<Rightarrow> ('k, 'v) gomap \<Rightarrow> 'k \<Rightarrow> 'v" where
  "mapGet zero m k = (case map_of m k of None \<Rightarrow> zero | Some v \<Rightarrow> v)"

definition mapSet :: "('k, 'v) gomap \<Rightarrow> 'k \<Rightarrow> 'v \<Rightarrow> ('k, 'v) gomap" where
  "mapSet m k v = AList.update k v m"

definition mapKeys :: "('k, 'v) gomap \<Rightarrow> 'k list" where
  "mapKeys m = map fst m"

section \<open>The catalog and its collaborators\<close>

text \<open>
  \<^verbatim>\<open>schemas.BifrostError\<close> and \<^verbatim>\<open>schemas.ErrorField\<close> are declared in package
  \<^verbatim>\<open>schemas\<close>, outside the sources covered here; the fields below are the ones \<^verbatim>\<open>extractDiscoveryErrorMessage\<close> reads. The
  wrapped \<^verbatim>\<open>error\<close> interface value is represented by the text its \<^verbatim>\<open>Error()\<close> method
  returns, \<open>None\<close> standing for a nil interface or pointer.
\<close>

record ErrorField =
  ef_Message :: string
  ef_Error :: "string option"

record BifrostError =
  be_Error :: "ErrorField option"

text \<open>\<^verbatim>\<open>schemas.Model\<close> and \<^verbatim>\<open>schemas.BifrostListModelsResponse\<close>, as far as they are read.\<close>

record Model =
  ID :: string

record BifrostListModelsResponse =
  Data :: "Model list"

type_synonym healthPayload = "(string, persistedProviderModelHealthState) gomap"

text \<open>
  The config store collaborator: whether its dynamic type implements
  \<^verbatim>\<open>providerModelHealthStore\<close>, and the payloads handed to \<^verbatim>\<open>UpdateConfig\<close> so far
  under the health state key.
\<close>

record ConfigStore =
  implementsHealthStore :: bool
  updateConfigCalls :: "healthPayload list"

text \<open>
  \<^verbatim>\<open>configstoreTables.TableModelPricing\<close>, with the three fields the tests set.
\<close>

record TableModelPricing =
  tp_Model :: string
  tp_Provider :: string
  tp_Mode :: string

text \<open>
  The fields of \<^verbatim>\<open>ModelCatalog\<close> this development reads or writes. The persist callback
  is represented by the number of times it has been invoked (\<open>None\<close>: no callback
  configured); the persist signal by the number of signals queued in its channel of
  capacity one (\<open>None\<close>: the channel is nil, no worker was started). \<^verbatim>\<open>pricingData\<close>
  holds the values of the pricing map, whose keys are derived from model, provider and
  mode and are never read here.
\<close>

record ModelCatalog =
  modelPool :: "(ModelProvider, string list) gomap"
  unfilteredModelPool :: "(ModelProvider, string list) gomap"
  providerModelSnapshots :: "(ModelProvider, string list) gomap"
  providerModelSources :: "(ModelProvider, ProviderModelSource) gomap"
  unfilteredProviderModelSources :: "(ModelProvider, ProviderModelSource) gomap"
  providerModelHealth :: "(ModelProvider, providerModelHealthState) gomap"
  pricingData :: "TableModelPricing list"
  configStore :: "ConfigStore option"
  providerModelHealthPersistCallback :: "nat option"
  providerModelHealthPersistSignal :: "nat option"

section \<open>Recording discovery results\<close>

text \<open>
  \<^verbatim>\<open>schemas.ParseModelString\<close> lies outside the sources covered here; the functions that call it
  take it as the parameter \<open>parse\<close>.
\<close>

type_synonym parser = "string \<Rightarrow> ModelProvider \<Rightarrow> ModelProvider \<times> string"

text \<open>The loop of \<^verbatim>\<open>countProviderModelsInResponse\<close>, with its \<^verbatim>\<open>seenModels\<close> set and counter.\<close>

fun countLoop :: "parser \<Rightarrow> ModelProvider \<Rightarrow> Model list \<Rightarrow> string list \<Rightarrow> int \<Rightarrow> int" where
  "countLoop parse provider [] seenModels count = count"
| "countLoop parse provider (model # rest) seenModels count =
     (let (parsedProvider, parsedModel) = parse (ID model) provider in
      if parsedProvider \<noteq> provider then countLoop parse provider rest seenModels count
      else if parsedModel \<in> set seenModels then countLoop parse provider rest seenModels count
      else countLoop parse provider rest (parsedModel # seenModels) (count + 1))"

definition countProviderModelsInResponse ::
    "parser \<Rightarrow> ModelProvider \<Rightarrow> BifrostListModelsResponse option \<Rightarrow> int" where
  "countProviderModelsInResponse parse provider modelData =
     (case modelData of
        None \<Rightarrow> 0
      | Some r \<Rightarrow> if length (Data r) = 0 then 0 else countLoop parse provider (Data r) [] 0)"

definition extractDiscoveryErrorMessage :: "BifrostError option \<Rightarrow> string" where
  "extractDiscoveryErrorMessage discoveryErr =
     (case discoveryErr of
        None \<Rightarrow> []
      | Some e \<Rightarrow>
          (case be_Error e of
             None \<Rightarrow> ''model discovery failed''
           | Some f \<Rightarrow>
               if ef_Message f \<noteq> [] then ef_Message f
               else (case ef_Error f of
                       Some msg \<Rightarrow> msg
                     | None \<Rightarrow> ''model discovery failed'')))"

definition getProviderModelHealthStore :: "ModelCatalog \<Rightarrow> ConfigStore option" where
  "getProviderModelHealthStore mc =
     (case configStore mc of
        None \<Rightarrow> None
      | Some store \<Rightarrow> if implementsHealthStore store then Some store else None)"

definition shouldPersistProviderModelHealthState :: "ModelCatalog \<Rightarrow> bool" where
  "shouldPersistProviderModelHealthState mc =
     (if providerModelHealthPersistCallback mc \<noteq> None then True
      else getProviderModelHealthStore mc \<noteq> None)"

definition isPersistedProviderModelHealthStateEmpty ::
    "persistedProviderModelHealthState \<Rightarrow> bool" where
  "isPersistedProviderModelHealthStateEmpty entry =
     (if \<not> IsZero (LastAttemptAt (ps_Filtered entry)) \<or>
         \<not> IsZero (LastSuccessAt (ps_Filtered entry)) \<or>
         \<not> IsZero (LastErrorAt (ps_Filtered entry)) \<or>
         LastError (ps_Filtered entry) \<noteq> [] \<or>
         LastModelsCount (ps_Filtered entry) \<noteq> 0 then False
      else if \<not> IsZero (LastAttemptAt (ps_Unfiltered entry)) \<or>
         \<not> IsZero (LastSuccessAt (ps_Unfiltered entry)) \<or>
         \<not> IsZero (LastErrorAt (ps_Unfiltered entry)) \<or>
         LastError (ps_Unfiltered entry) \<noteq> [] \<or>
         LastModelsCount (ps_Unfiltered entry) \<noteq> 0 then False
      else if \<not> IsZero (ps_LastSnapshotUpdated entry) then False
      else if ps_FilteredSource entry \<noteq> [] \<or> ps_UnfilteredSource entry \<noteq> [] then False
      else True)"

text \<open>The entry \<^verbatim>\<open>getPersistedProviderModelHealthState\<close> builds for one provider.\<close>

definition persistedEntry :: "ModelCatalog \<Rightarrow> ModelProvider \<Rightarrow> persistedProviderModelHealthState" where
  "persistedEntry mc provider =
     \<lparr>ps_Filtered = Filtered (mapGet zeroHealthState (providerModelHealth mc) provider),
      ps_Unfiltered = Unfiltered (mapGet zeroHealthState (providerModelHealth mc) provider),
      ps_LastSnapshotUpdated =
        LastSnapshotUpdated (mapGet zeroHealthState (providerModelHealth mc) provider),
      ps_FilteredSource = mapGet [] (providerModelSources mc) provider,
      ps_UnfilteredSource = mapGet [] (unfilteredProviderModelSources mc) provider\<rparr>"

text \<open>The second loop of \<^verbatim>\<open>getPersistedProviderModelHealthState\<close>, over the collected keys.\<close>

fun persistLoop :: "ModelCatalog \<Rightarrow> ModelProvider list \<Rightarrow> healthPayload \<Rightarrow> healthPayload" where
  "persistLoop mc [] persistedState = persistedState"
| "persistLoop mc (provider # rest) persistedState =
     (let entry = persistedEntry mc provider in
      if isPersistedProviderModelHealthStateEmpty entry then persistLoop mc rest persistedState
      else persistLoop mc rest (mapSet persistedState provider entry))"

definition getPersistedProviderModelHealthState :: "ModelCatalog \<Rightarrow> healthPayload" where
  "getPersistedProviderModelHealthState mc =
     (let providers = remdups (mapKeys (providerModelHealth mc) @
                               mapKeys (providerModelSources mc) @
                               mapKeys (unfilteredProviderModelSources mc))
      in persistLoop mc providers [])"

text \<open>
  \<^verbatim>\<open>persistProviderModelHealthStateNow\<close>: the callback replaces the store write; otherwise
  the payload goes to \<^verbatim>\<open>UpdateConfig\<close>. Marshalling the payload and the outcome of the
  store call only decide whether a warning is logged, which is not part of the state.
\<close>

definition persistProviderModelHealthStateNow :: "ModelCatalog \<Rightarrow> ModelCatalog" where
  "persistProviderModelHealthStateNow mc =
     (case providerModelHealthPersistCallback mc of
        Some n \<Rightarrow> mc\<lparr>providerModelHealthPersistCallback := Some (Suc n)\<rparr>
      | None \<Rightarrow>
          (case getProviderModelHealthStore mc of
             None \<Rightarrow> mc
           | Some store \<Rightarrow>
               mc\<lparr>configStore :=
                    Some (store\<lparr>updateConfigCalls :=
                            updateConfigCalls store @
                              [getPersistedProviderModelHealthState mc]\<rparr>)\<rparr>))"

text \<open>
  \<^verbatim>\<open>persistProviderModelHealthState\<close>: without a worker the write happens at once; with one,
  a signal is queued unless one is already pending (the non-blocking send).
\<close>

definition persistProviderModelHealthState :: "ModelCatalog \<Rightarrow> ModelCatalog" where
  "persistProviderModelHealthState mc =
     (if \<not> shouldPersistProviderModelHealthState mc then mc
      else (case providerModelHealthPersistSignal mc of
              None \<Rightarrow> persistProviderModelHealthStateNow mc
            | Some queued \<Rightarrow>
                if queued < 1 then mc\<lparr>providerModelHealthPersistSignal := Some (Suc queued)\<rparr>
                else mc))"

text \<open>The assignments \<^verbatim>\<open>RecordProviderModelDiscoveryResult\<close> makes to its target variant.\<close>

definition recordTarget ::
    "parser \<Rightarrow> Time \<Rightarrow> ModelProvider \<Rightarrow> BifrostListModelsResponse option \<Rightarrow>
     BifrostError option \<Rightarrow> providerDiscoveryState \<Rightarrow> providerDiscoveryState" where
  "recordTarget parse now provider modelData discoveryErr target =
     (let target = target\<lparr>LastAttemptAt := now\<rparr> in
      if discoveryErr \<noteq> None
        then target\<lparr>LastErrorAt := now,
                    LastError := extractDiscoveryErrorMessage discoveryErr\<rparr>
      else target\<lparr>LastSuccessAt := now,
                  LastErrorAt := 0,
                  LastError := [],
                  LastModelsCount := countProviderModelsInResponse parse provider modelData\<rparr>)"

text \<open>
  \<^verbatim>\<open>RecordProviderModelDiscoveryResult\<close>; \<open>now\<close> is the reading of \<^verbatim>\<open>time.Now().UTC()\<close>
  taken under the lock.
\<close>

definition RecordProviderModelDiscoveryResult ::
    "parser \<Rightarrow> Time \<Rightarrow> ModelCatalog \<Rightarrow> ModelProvider \<Rightarrow> bool \<Rightarrow>
     BifrostListModelsResponse option \<Rightarrow> BifrostError option \<Rightarrow> ModelCatalog" where
  "RecordProviderModelDiscoveryResult parse now mc provider unfiltered modelData discoveryErr =
     (let state = mapGet zeroHealthState (providerModelHealth mc) provider;
          state' =
            (if unfiltered
               then state\<lparr>Unfiltered :=
                      recordTarget parse now provider modelData discoveryErr (Unfiltered state)\<rparr>
             else state\<lparr>Filtered :=
                      recordTarget parse now provider modelData discoveryErr (Filtered state)\<rparr>);
          mc' = mc\<lparr>providerModelHealth := mapSet (providerModelHealth mc) provider state'\<rparr>
      in persistProviderModelHealthState mc')"

section \<open>The health report\<close>

text \<open>The six loops that collect the provider set, in the order of the source.\<close>

definition providerSet :: "ModelCatalog \<Rightarrow> ModelProvider list" where
  "providerSet mc =
     remdups (mapKeys (modelPool mc) @
              mapKeys (unfilteredModelPool mc) @
              mapKeys (providerModelSnapshots mc) @
              mapKeys (providerModelHealth mc) @
              mapKeys (providerModelSources mc) @
              mapKeys (unfilteredProviderModelSources mc))"

text \<open>
  \<^verbatim>\<open>sort.Slice\<close> with \<^verbatim>\<open><\<close> on strings (byte-wise lexicographic order) over the
  collected keys, which are pairwise distinct.
\<close>

definition sortedProviders :: "ModelCatalog \<Rightarrow> ModelProvider list" where
  "sortedProviders mc = sort (providerSet mc)"

text \<open>The item the main loop builds for one provider.\<close>

definition healthItem :: "ModelCatalog \<Rightarrow> Time \<Rightarrow> ModelProvider \<Rightarrow> ProviderModelSnapshotHealth" where
  "healthItem mc now provider =
     (let filteredSource = mapGet [] (providerModelSources mc) provider;
          filteredSource =
            (if filteredSource = [] then ProviderModelSourceUnknown else filteredSource);
          unfilteredSource = mapGet [] (unfilteredProviderModelSources mc) provider;
          unfilteredSource =
            (if unfilteredSource = [] then ProviderModelSourceUnknown else unfilteredSource);
          state = mapGet zeroHealthState (providerModelHealth mc) provider;
          filteredDiscovery = toProviderModelDiscoveryHealth (Filtered state) now;
          unfilteredDiscovery = toProviderModelDiscoveryHealth (Unfiltered state) now;
          status = mergeProviderHealthStatus (dh_Status filteredDiscovery)
                     (dh_Status unfilteredDiscovery)
      in \<lparr>ph_Provider = provider,
          ph_Status = status,
          ph_SnapshotModelCount = int (length (mapGet [] (providerModelSnapshots mc) provider)),
          ph_FilteredModelCount = int (length (mapGet [] (modelPool mc) provider)),
          ph_UnfilteredModelCount = int (length (mapGet [] (unfilteredModelPool mc) provider)),
          ph_FilteredSource = filteredSource,
          ph_UnfilteredSource = unfilteredSource,
          ph_LastSnapshotUpdated =
            (if \<not> IsZero (LastSnapshotUpdated state) then Some (LastSnapshotUpdated state)
             else None),
          ph_FilteredDiscovery = filteredDiscovery,
          ph_UnfilteredDiscovery = unfilteredDiscovery\<rparr>)"

text \<open>The counting \<^verbatim>\<open>switch\<close> of the main loop, for one merged status.\<close>

definition countStatus ::
    "ProviderModelHealthStatus \<Rightarrow> ProviderModelSnapshotHealthSummary \<Rightarrow>
     ProviderModelSnapshotHealthSummary" where
  "countStatus status summary =
     (let summary = summary\<lparr>TotalProviders := TotalProviders summary + 1\<rparr> in
      case status of
        ProviderModelHealthHealthy \<Rightarrow>
          summary\<lparr>HealthyProviders := HealthyProviders summary + 1\<rparr>
      | ProviderModelHealthStale \<Rightarrow>
          summary\<lparr>StaleProviders := StaleProviders summary + 1\<rparr>
      | ProviderModelHealthError \<Rightarrow>
          summary\<lparr>ErrorProviders := ErrorProviders summary + 1\<rparr>
      | ProviderModelHealthDegraded \<Rightarrow>
          summary\<lparr>DegradedProviders := DegradedProviders summary + 1\<rparr>
      | ProviderModelHealthUnknown \<Rightarrow>
          summary\<lparr>UnknownProviders := UnknownProviders summary + 1\<rparr>)"

definition zeroSummary :: ProviderModelSnapshotHealthSummary where
  "zeroSummary =
     \<lparr>TotalProviders = 0, HealthyProviders = 0, StaleProviders = 0, ErrorProviders = 0,
      DegradedProviders = 0, UnknownProviders = 0\<rparr>"

text \<open>The main loop over the sorted providers: the items and the running summary.\<close>

fun reportLoop ::
    "ModelCatalog \<Rightarrow> Time \<Rightarrow> ModelProvider list \<Rightarrow> ProviderModelSnapshotHealth list \<Rightarrow>
     ProviderModelSnapshotHealthSummary \<Rightarrow>
     ProviderModelSnapshotHealth list \<times> ProviderModelSnapshotHealthSummary" where
  "reportLoop mc now [] items summary = (items, summary)"
| "reportLoop mc now (provider # rest) items summary =
     (let item = healthItem mc now provider in
      reportLoop mc now rest (items @ [item]) (countStatus (ph_Status item) summary))"

text \<open>The final \<^verbatim>\<open>switch\<close> over the summary counts.\<close>

definition reportStatus :: "ProviderModelSnapshotHealthSummary \<Rightarrow> ProviderModelHealthStatus" where
  "reportStatus summary =
     (if TotalProviders summary = 0 then ProviderModelHealthUnknown
      else if ErrorProviders summary > 0 then ProviderModelHealthError
      else if StaleProviders summary > 0 \<or> DegradedProviders summary > 0
        then ProviderModelHealthDegraded
      else if HealthyProviders summary > 0 then ProviderModelHealthHealthy
      else ProviderModelHealthUnknown)"

text \<open>
  \<^verbatim>\<open>GetProviderModelSnapshotHealthReport\<close>; \<open>now\<close> is the reading of
  \<^verbatim>\<open>time.Now().UTC()\<close> taken on entry.
\<close>

definition GetProviderModelSnapshotHealthReport ::
    "ModelCatalog \<Rightarrow> Time \<Rightarrow> ProviderModelSnapshotHealthReport" where
  "GetProviderModelSnapshotHealthReport mc now =
     (let (items, summary) = reportLoop mc now (sortedProviders mc) [] zeroSummary in
      \<lparr>rp_Status = reportStatus summary,
       rp_GeneratedAt = now,
       rp_StaleAfterSeconds = SecondsInt64 DefaultProviderModelSnapshotStaleAfter,
       rp_Summary = summary,
       rp_Providers = items\<rparr>)"

section \<open>Catalog states of the tests\<close>

text \<open>\<^verbatim>\<open>newTestCatalog(nil, nil)\<close> of main\_test.go: every map empty, no collaborator.\<close>

definition newTestCatalog :: ModelCatalog where
  "newTestCatalog =
     \<lparr>modelPool = [], unfilteredModelPool = [], providerModelSnapshots = [],
      providerModelSources = [], unfilteredProviderModelSources = [],
      providerModelHealth = [], pricingData = [], configStore = None,
      providerModelHealthPersistCallback = None,
      providerModelHealthPersistSignal = None\<rparr>"

text \<open>
  The state \<^verbatim>\<open>TestProviderModelSnapshotHealthReportStale\<close> sets up: both variants of one
  provider succeeded at the same instant, here 1000, which the test places two
  thresholds before the report.
\<close>

definition staleTestCatalog :: ModelCatalog where
  "staleTestCatalog =
     newTestCatalog\<lparr>providerModelHealth :=
       [(''moonshot'',
         \<lparr>Filtered = \<lparr>LastAttemptAt = 1000, LastSuccessAt = 1000, LastErrorAt = 0,
                       LastError = [], LastModelsCount = 1\<rparr>,
          Unfiltered = \<lparr>LastAttemptAt = 1000, LastSuccessAt = 1000, LastErrorAt = 0,
                         LastError = [], LastModelsCount = 1\<rparr>,
          LastSnapshotUpdated = 0\<rparr>)]\<rparr>"

section \<open>Reading the health state\<close>

text \<open>
  \<^verbatim>\<open>mc.providerModelHealth[provider]\<close>, and the variant that the pointer \<^verbatim>\<open>target\<close> of
  \<^verbatim>\<open>RecordProviderModelDiscoveryResult\<close> selects for a given \<^verbatim>\<open>unfiltered\<close> flag.
\<close>

definition healthOf :: "ModelCatalog \<Rightarrow> ModelProvider \<Rightarrow> providerModelHealthState" where
  "healthOf mc provider = mapGet zeroHealthState (providerModelHealth mc) provider"

definition targetOf :: "bool \<Rightarrow> providerModelHealthState \<Rightarrow> providerDiscoveryState" where
  "targetOf unfiltered state = (if unfiltered then Unfiltered state else Filtered state)"

section \<open>Parsing model identifiers\<close>

text \<open>
  Modelled from the spec: \<^verbatim>\<open>schemas.ParseModelString\<close> is called by
  \<^verbatim>\<open>countProviderModelsInResponse\<close> but defined outside the sources covered here. Following
  section 4.1 of the specification and the identifiers of the tests
  (\<^verbatim>\<open>glm/glm-5\<close>), a model string that contains the provider-prefix delimiter \<^verbatim>\<open>/\<close> is
  split at its first occurrence into provider and model, the prefix carrying no further
  validation; a string without the delimiter belongs to the default provider. It is used
  only to instantiate the parameter \<open>parse\<close> on concrete inputs.
\<close>

fun splitFirstSlash :: "string \<Rightarrow> (string \<times> string) option" where
  "splitFirstSlash [] = None"
| "splitFirstSlash (c # cs) =
     (if c = CHR ''/'' then Some ([], cs)
      else (case splitFirstSlash cs of
              None \<Rightarrow> None
            | Some (prefix, remainder) \<Rightarrow> Some (c # prefix, remainder)))"

definition ParseModelString :: parser where
  "ParseModelString model defaultProvider =
     (case splitFirstSlash model of
        Some (prefix, remainder) \<Rightarrow> (prefix, remainder)
      | None \<Rightarrow> (defaultProvider, model))"

section \<open>The models a response lists for a provider\<close>

text \<open>
  The parsed model names of the entries whose parsed provider equals the expected
  provider, in the order of the response and with repetitions. The specification asks
  \<^verbatim>\<open>countProviderModelsInResponse\<close> for the number of distinct names among them.
\<close>

definition providerModelNames :: "parser \<Rightarrow> ModelProvider \<Rightarrow> Model list \<Rightarrow> string list" where
  "providerModelNames parse provider ms =
     map snd (filter (\<lambda>parsed. fst parsed = provider) (map (\<lambda>m. parse (ID m) provider) ms))"

section \<open>Default seed models (default\_models.go)\<close>

text \<open>
  The provider constants are declared in \<^verbatim>\<open>schemas\<close>, outside the sources covered here; their
  values are the prefixes the tests use in model identifiers such as \<^verbatim>\<open>glm/glm-5\<close> and
  the names of the provider packages.
\<close>

definition GLM :: ModelProvider where "GLM = ''glm''"
definition Minimax :: ModelProvider where "Minimax = ''minimax''"
definition Deepseek :: ModelProvider where "Deepseek = ''deepseek''"
definition Moonshot :: ModelProvider where "Moonshot = ''moonshot''"
definition Volcengine :: ModelProvider where "Volcengine = ''volcengine''"
definition Qwen :: ModelProvider where "Qwen = ''qwen''"

definition defaultProviderModels :: "(ModelProvider, string list) gomap" where
  "defaultProviderModels =
     [(GLM,
       [''glm-5'', ''glm-4.7'', ''glm-4.7x'', ''glm-4.7-flash'', ''glm-4.7-flashx'',
        ''glm-4.6'', ''glm-4.6v'', ''glm-4.6v-flash'', ''glm-4.5'', ''glm-4.5-air'',
        ''glm-4.5-airx'', ''glm-z1-air'', ''glm-z1-airx'', ''glm-z1-flash'',
        ''glm-z1-flashx'', ''glm-z1-thinking'', ''glm-z1-rumination'']),
      (Minimax,
       [''MiniMax-M2.5'', ''MiniMax-M2'', ''MiniMax-M2.1'', ''MiniMax-M2.5-lightning'',
        ''MiniMax-M2.1-lightning'', ''speech-2.6-hd'', ''speech-2.6-turbo'',
        ''speech-02-hd'', ''speech-02-turbo'']),
      (Deepseek, [''deepseek-chat'', ''deepseek-reasoner'']),
      (Moonshot,
       [''kimi-k2.5'', ''kimi-k2-thinking'', ''kimi-k2-thinking-turbo'', ''kimi-latest'',
        ''kimi-latest-8k'', ''kimi-latest-32k'', ''kimi-latest-128k'']),
      (Volcengine,
       [''doubao-embedding'', ''doubao-embedding-text-240715'', ''doubao-embedding-large'',
        ''doubao-embedding-large-text-240915'', ''doubao-embedding-large-text-250515'',
        ''deepseek-v3-2-251201'', ''glm-4-7-251222'', ''kimi-k2-thinking-251104'']),
      (Qwen,
       [''qwen-plus-latest'', ''qwen-plus'', ''qwen-turbo-latest'', ''qwen-turbo'',
        ''qwen-max-latest'', ''qwen3-max-preview'', ''qwen3-coder-plus'',
        ''qwen3-coder-480b-a35b-instruct''])]"

text \<open>A provider without an entry gets the nil slice, which has no element.\<close>

definition getDefaultModelsForProvider :: "ModelProvider \<Rightarrow> string list" where
  "getDefaultModelsForProvider provider =
     (case map_of defaultProviderModels provider of
        None \<Rightarrow> []
      | Some models \<Rightarrow> models)"

text \<open>The loop of \<^verbatim>\<open>appendUniqueModels\<close> over the candidates.\<close>

fun appendLoop :: "string list \<Rightarrow> string list \<Rightarrow> string list \<Rightarrow> string list" where
  "appendLoop target seenModels [] = target"
| "appendLoop target seenModels (model # rest) =
     (if model \<in> set seenModels then appendLoop target seenModels rest
      else appendLoop (target @ [model]) (model # seenModels) rest)"

definition appendUniqueModels :: "string list \<Rightarrow> string list \<Rightarrow> string list" where
  "appendUniqueModels target candidates =
     (if length candidates = 0 then target else appendLoop target target candidates)"

section \<open>Pool resolution\<close>

text \<open>
  Modelled from the spec: \<^verbatim>\<open>UpsertModelDataForProvider\<close>,
  \<^verbatim>\<open>UpsertUnfilteredModelDataForProvider\<close>, \<^verbatim>\<open>GetModelsForProvider\<close> and
  \<^verbatim>\<open>GetUnfilteredModelsForProvider\<close> are defined in a file of the package that is not
  among the sources covered here; only their tests and the default seed table are. The definitions below follow
  section 4.2 of the specification. A discovery response is usable when the entries of
  the expected provider, reduced to base names and deduplicated in first-seen order,
  leave a non-empty list; the pool is then rebuilt from that list with the source
  \<^verbatim>\<open>live_discovery\<close>, and the unfiltered variant also replaces the snapshot. Otherwise
  the fallback tiers are tried in order (the durable snapshot, the pricing entries of the
  provider, the default seed list) and the first non-empty one gives the pool and the
  source tag. The specification names no result when every tier is empty; the catalog is
  then left as it is. It gives the discovery error argument no part in the resolution.
  Every upsert signals the persistence worker. The base-name function of section 4.1
  (\<^verbatim>\<open>GetBaseModelName\<close>) is the parameter \<open>base\<close>.
\<close>

definition liveDiscoveryModels ::
    "parser \<Rightarrow> (string \<Rightarrow> string) \<Rightarrow> ModelProvider \<Rightarrow> BifrostListModelsResponse option \<Rightarrow>
     string list" where
  "liveDiscoveryModels parse base provider modelData =
     (case modelData of
        None \<Rightarrow> []
      | Some r \<Rightarrow> appendUniqueModels [] (map base (providerModelNames parse provider (Data r))))"

definition pricingModelsForProvider :: "ModelCatalog \<Rightarrow> ModelProvider \<Rightarrow> string list" where
  "pricingModelsForProvider mc provider =
     appendUniqueModels []
       (map tp_Model (filter (\<lambda>entry. tp_Provider entry = provider) (pricingData mc)))"

definition fallbackTiers ::
    "ModelCatalog \<Rightarrow> ModelProvider \<Rightarrow> (string list \<times> ProviderModelSource) list" where
  "fallbackTiers mc provider =
     [(mapGet [] (providerModelSnapshots mc) provider, ProviderModelSourcePersistedSnapshot),
      (pricingModelsForProvider mc provider, ProviderModelSourcePricingCatalog),
      (getDefaultModelsForProvider provider, ProviderModelSourceDefaultSeed)]"

definition resolveFallbackPool ::
    "ModelCatalog \<Rightarrow> ModelProvider \<Rightarrow> (string list \<times> ProviderModelSource) option" where
  "resolveFallbackPool mc provider = find (\<lambda>tier. fst tier \<noteq> []) (fallbackTiers mc provider)"

definition UpsertModelDataForProvider ::
    "parser \<Rightarrow> (string \<Rightarrow> string) \<Rightarrow> ModelCatalog \<Rightarrow> ModelProvider \<Rightarrow>
     BifrostListModelsResponse option \<Rightarrow> BifrostError option \<Rightarrow> ModelCatalog" where
  "UpsertModelDataForProvider parse base mc provider modelData discoveryErr =
     (let live = liveDiscoveryModels parse base provider modelData in
      if live \<noteq> []
        then persistProviderModelHealthState
               (mc\<lparr>modelPool := mapSet (modelPool mc) provider live,
                   providerModelSources :=
                     mapSet (providerModelSources mc) provider
                       ProviderModelSourceLiveDiscovery\<rparr>)
      else (case resolveFallbackPool mc provider of
              None \<Rightarrow> mc
            | Some (pool, source) \<Rightarrow>
                persistProviderModelHealthState
                  (mc\<lparr>modelPool := mapSet (modelPool mc) provider pool,
                      providerModelSources :=
                        mapSet (providerModelSources mc) provider source\<rparr>)))"

definition UpsertUnfilteredModelDataForProvider ::
    "parser \<Rightarrow> (string \<Rightarrow> string) \<Rightarrow> ModelCatalog \<Rightarrow> ModelProvider \<Rightarrow>
     BifrostListModelsResponse option \<Rightarrow> ModelCatalog" where
  "UpsertUnfilteredModelDataForProvider parse base mc provider modelData =
     (let live = liveDiscoveryModels parse base provider modelData in
      if live \<noteq> []
        then persistProviderModelHealthState
               (mc\<lparr>unfilteredModelPool := mapSet (unfilteredModelPool mc) provider live,
                   providerModelSnapshots := mapSet (providerModelSnapshots mc) provider live,
                   unfilteredProviderModelSources :=
                     mapSet (unfilteredProviderModelSources mc) provider
                       ProviderModelSourceLiveDiscovery\<rparr>)
      else (case resolveFallbackPool mc provider of
              None \<Rightarrow> mc
            | Some (pool, source) \<Rightarrow>
                persistProviderModelHealthState
                  (mc\<lparr>unfilteredModelPool := mapSet (unfilteredModelPool mc) provider pool,
                      unfilteredProviderModelSources :=
                        mapSet (unfilteredProviderModelSources mc) provider source\<rparr>)))"

definition GetModelsForProvider :: "ModelCatalog \<Rightarrow> ModelProvider \<Rightarrow> string list" where
  "GetModelsForProvider mc provider = mapGet [] (modelPool mc) provider"

definition GetUnfilteredModelsForProvider :: "ModelCatalog \<Rightarrow> ModelProvider \<Rightarrow> string list" where
  "GetUnfilteredModelsForProvider mc provider = mapGet [] (unfilteredModelPool mc) provider"

section \<open>Facts about time arithmetic\<close>

text \<open>
  Saturation of \<^verbatim>\<open>Sub\<close> never changes the comparison with the staleness threshold:
  the saturated difference exceeds 24 hours exactly when the true difference does.
\<close>

lemma Sub_gt_iff:
  "(Sub t u > DefaultProviderModelSnapshotStaleAfter) = (t - u > 86400000000000)"
  by (auto simp: Sub_def Let_def minDuration_def maxDuration_def Before_def
      DefaultProviderModelSnapshotStaleAfter_def Hour_def)

section \<open>Per-variant status derivation\<close>

text \<open>
  Claim C1. For every per-variant discovery state and every current time, the status
  derived by \<^verbatim>\<open>toProviderModelDiscoveryHealth\<close> follows the table of the
  specification, its rows read from top to bottom: unknown when no attempt was ever
  recorded; otherwise error when an error timestamp is set and no success was recorded
  or the error is not strictly before the success; otherwise stale when a success is
  recorded and the current time minus the last success exceeds 24 hours; healthy when
  it does not; and unknown when an attempt is recorded but neither a success nor an
  error is set. The five rows are exhaustive and exclude one another.
\<close>

theorem discovery_status_table:
  "(LastAttemptAt state = 0 \<longrightarrow>
      dh_Status (toProviderModelDiscoveryHealth state now) = ProviderModelHealthUnknown) \<and>
   (LastAttemptAt state \<noteq> 0 \<and> LastErrorAt state \<noteq> 0 \<and>
    (LastSuccessAt state = 0 \<or> \<not> LastErrorAt state < LastSuccessAt state) \<longrightarrow>
      dh_Status (toProviderModelDiscoveryHealth state now) = ProviderModelHealthError) \<and>
   (LastAttemptAt state \<noteq> 0 \<and> LastSuccessAt state \<noteq> 0 \<and>
    (LastErrorAt state = 0 \<or> LastErrorAt state < LastSuccessAt state) \<and>
    now - LastSuccessAt state > 24 * 3600 * 1000000000 \<longrightarrow>
      dh_Status (toProviderModelDiscoveryHealth state now) = ProviderModelHealthStale) \<and>
   (LastAttemptAt state \<noteq> 0 \<and> LastSuccessAt state \<noteq> 0 \<and>
    (LastErrorAt state = 0 \<or> LastErrorAt state < LastSuccessAt state) \<and>
    now - LastSuccessAt state \<le> 24 * 3600 * 1000000000 \<longrightarrow>
      dh_Status (toProviderModelDiscoveryHealth state now) = ProviderModelHealthHealthy) \<and>
   (LastAttemptAt state \<noteq> 0 \<and> LastSuccessAt state = 0 \<and> LastErrorAt state = 0 \<longrightarrow>
      dh_Status (toProviderModelDiscoveryHealth state now) = ProviderModelHealthUnknown)"
  by (simp add: toProviderModelDiscoveryHealth_def Let_def IsZero_def Before_def Sub_gt_iff)

theorem discovery_status_table_witness:
  "dh_Status (toProviderModelDiscoveryHealth
      \<lparr>LastAttemptAt = 0, LastSuccessAt = 7, LastErrorAt = 9, LastError = ''x'',
       LastModelsCount = 3\<rparr> 100) = ProviderModelHealthUnknown \<and>
   dh_Status (toProviderModelDiscoveryHealth
      \<lparr>LastAttemptAt = 9, LastSuccessAt = 9, LastErrorAt = 9, LastError = ''x'',
       LastModelsCount = 3\<rparr> 100) = ProviderModelHealthError \<and>
   dh_Status (toProviderModelDiscoveryHealth
      \<lparr>LastAttemptAt = 9, LastSuccessAt = 9, LastErrorAt = 7, LastError = [],
       LastModelsCount = 3\<rparr> 86400000000010) = ProviderModelHealthStale \<and>
   dh_Status (toProviderModelDiscoveryHealth
      \<lparr>LastAttemptAt = 9, LastSuccessAt = 9, LastErrorAt = 0, LastError = [],
       LastModelsCount = 3\<rparr> 86400000000009) = ProviderModelHealthHealthy \<and>
   dh_Status (toProviderModelDiscoveryHealth
      \<lparr>LastAttemptAt = 9, LastSuccessAt = 0, LastErrorAt = 0, LastError = [],
       LastModelsCount = 0\<rparr> 100) = ProviderModelHealthUnknown"
  using
    discovery_status_table [of "\<lparr>LastAttemptAt = 0, LastSuccessAt = 7, LastErrorAt = 9,
       LastError = ''x'', LastModelsCount = 3\<rparr>" 100]
    discovery_status_table [of "\<lparr>LastAttemptAt = 9, LastSuccessAt = 9, LastErrorAt = 9,
       LastError = ''x'', LastModelsCount = 3\<rparr>" 100]
    discovery_status_table [of "\<lparr>LastAttemptAt = 9, LastSuccessAt = 9, LastErrorAt = 7,
       LastError = [], LastModelsCount = 3\<rparr>" 86400000000010]
    discovery_status_table [of "\<lparr>LastAttemptAt = 9, LastSuccessAt = 9, LastErrorAt = 0,
       LastError = [], LastModelsCount = 3\<rparr>" 86400000000009]
    discovery_status_table [of "\<lparr>LastAttemptAt = 9, LastSuccessAt = 0, LastErrorAt = 0,
       LastError = [], LastModelsCount = 0\<rparr>" 100]
  by simp

section \<open>Merging the two variants\<close>

text \<open>
  Claim C2. For every pair of per-variant statuses the merged per-provider status obeys
  the precedence error, stale, unknown, degraded, healthy: it is error exactly when
  either variant is error; stale exactly when neither is error and either is stale;
  unknown exactly when both are unknown; degraded exactly when neither is error or
  stale and exactly one is unknown; and healthy in all remaining cases.
\<close>

theorem merge_precedence:
  "(mergeProviderHealthStatus f u = ProviderModelHealthError) =
     (f = ProviderModelHealthError \<or> u = ProviderModelHealthError) \<and>
   (mergeProviderHealthStatus f u = ProviderModelHealthStale) =
     (f \<noteq> ProviderModelHealthError \<and> u \<noteq> ProviderModelHealthError \<and>
      (f = ProviderModelHealthStale \<or> u = ProviderModelHealthStale)) \<and>
   (mergeProviderHealthStatus f u = ProviderModelHealthUnknown) =
     (f = ProviderModelHealthUnknown \<and> u = ProviderModelHealthUnknown) \<and>
   (mergeProviderHealthStatus f u = ProviderModelHealthDegraded) =
     (f \<noteq> ProviderModelHealthError \<and> u \<noteq> ProviderModelHealthError \<and>
      f \<noteq> ProviderModelHealthStale \<and> u \<noteq> ProviderModelHealthStale \<and>
      (f = ProviderModelHealthUnknown) \<noteq> (u = ProviderModelHealthUnknown)) \<and>
   (mergeProviderHealthStatus f u = ProviderModelHealthHealthy) =
     (f \<noteq> ProviderModelHealthError \<and> u \<noteq> ProviderModelHealthError \<and>
      f \<noteq> ProviderModelHealthStale \<and> u \<noteq> ProviderModelHealthStale \<and>
      f \<noteq> ProviderModelHealthUnknown \<and> u \<noteq> ProviderModelHealthUnknown)"
  by (cases f; cases u; simp add: mergeProviderHealthStatus_def)

theorem merge_precedence_witness:
  "mergeProviderHealthStatus ProviderModelHealthHealthy ProviderModelHealthError =
     ProviderModelHealthError \<and>
   mergeProviderHealthStatus ProviderModelHealthStale ProviderModelHealthUnknown =
     ProviderModelHealthStale \<and>
   mergeProviderHealthStatus ProviderModelHealthUnknown ProviderModelHealthUnknown =
     ProviderModelHealthUnknown \<and>
   mergeProviderHealthStatus ProviderModelHealthUnknown ProviderModelHealthHealthy =
     ProviderModelHealthDegraded \<and>
   mergeProviderHealthStatus ProviderModelHealthHealthy ProviderModelHealthHealthy =
     ProviderModelHealthHealthy"
  using
    merge_precedence [of ProviderModelHealthHealthy ProviderModelHealthError]
    merge_precedence [of ProviderModelHealthStale ProviderModelHealthUnknown]
    merge_precedence [of ProviderModelHealthUnknown ProviderModelHealthUnknown]
    merge_precedence [of ProviderModelHealthUnknown ProviderModelHealthHealthy]
    merge_precedence [of ProviderModelHealthHealthy ProviderModelHealthHealthy]
  by simp

section \<open>The loop of the report\<close>

text \<open>The main loop maps the item construction over the providers and tallies the statuses.\<close>

lemma reportLoop_eq:
  "reportLoop mc now ps items summary =
     (items @ map (healthItem mc now) ps,
      fold countStatus (map (\<lambda>p. ph_Status (healthItem mc now p)) ps) summary)"
  by (induction ps arbitrary: items summary) (simp_all add: Let_def)

lemma countStatus_fields:
  "TotalProviders (countStatus a s) = TotalProviders s + 1 \<and>
   HealthyProviders (countStatus a s) =
     HealthyProviders s + (if a = ProviderModelHealthHealthy then 1 else 0) \<and>
   StaleProviders (countStatus a s) =
     StaleProviders s + (if a = ProviderModelHealthStale then 1 else 0) \<and>
   ErrorProviders (countStatus a s) =
     ErrorProviders s + (if a = ProviderModelHealthError then 1 else 0) \<and>
   DegradedProviders (countStatus a s) =
     DegradedProviders s + (if a = ProviderModelHealthDegraded then 1 else 0) \<and>
   UnknownProviders (countStatus a s) =
     UnknownProviders s + (if a = ProviderModelHealthUnknown then 1 else 0)"
  by (cases a) (simp_all add: countStatus_def Let_def)

lemma fold_countStatus_fields:
  "TotalProviders (fold countStatus sts s) = TotalProviders s + int (length sts) \<and>
   HealthyProviders (fold countStatus sts s) =
     HealthyProviders s + int (count_list sts ProviderModelHealthHealthy) \<and>
   StaleProviders (fold countStatus sts s) =
     StaleProviders s + int (count_list sts ProviderModelHealthStale) \<and>
   ErrorProviders (fold countStatus sts s) =
     ErrorProviders s + int (count_list sts ProviderModelHealthError) \<and>
   DegradedProviders (fold countStatus sts s) =
     DegradedProviders s + int (count_list sts ProviderModelHealthDegraded) \<and>
   UnknownProviders (fold countStatus sts s) =
     UnknownProviders s + int (count_list sts ProviderModelHealthUnknown)"
proof (induction sts arbitrary: s)
  case Nil
  show ?case by simp
next
  case (Cons a sts)
  show ?case
    using Cons.IH [of "countStatus a s"] countStatus_fields [of a s] by simp
qed

lemma report_providers:
  "rp_Providers (GetProviderModelSnapshotHealthReport mc now) =
     map (healthItem mc now) (sortedProviders mc)"
  by (simp add: GetProviderModelSnapshotHealthReport_def reportLoop_eq)

lemma report_summary:
  "rp_Summary (GetProviderModelSnapshotHealthReport mc now) =
     fold countStatus
       (map ph_Status (rp_Providers (GetProviderModelSnapshotHealthReport mc now))) zeroSummary"
  by (simp add: GetProviderModelSnapshotHealthReport_def reportLoop_eq comp_def)

lemma report_status:
  "rp_Status (GetProviderModelSnapshotHealthReport mc now) =
     reportStatus (rp_Summary (GetProviderModelSnapshotHealthReport mc now))"
  by (simp add: GetProviderModelSnapshotHealthReport_def reportLoop_eq)

lemma stale_after_seconds:
  "SecondsInt64 DefaultProviderModelSnapshotStaleAfter = 86400"
  by (simp add: SecondsInt64_def DefaultProviderModelSnapshotStaleAfter_def Hour_def)

section \<open>Facts about maps and recording\<close>

lemma mapGet_mapSet:
  "mapGet z (mapSet m k v) k' = (if k' = k then v else mapGet z m k')"
  by (simp add: mapGet_def mapSet_def update_conv')

lemma persist_keeps_health:
  "providerModelHealth (persistProviderModelHealthState mc) = providerModelHealth mc"
  by (simp add: persistProviderModelHealthState_def persistProviderModelHealthStateNow_def
      split: option.splits)

lemma record_health:
  "providerModelHealth
     (RecordProviderModelDiscoveryResult parse now mc provider unfiltered modelData discoveryErr) =
   mapSet (providerModelHealth mc) provider
     (if unfiltered
        then (healthOf mc provider)\<lparr>Unfiltered :=
               recordTarget parse now provider modelData discoveryErr
                 (Unfiltered (healthOf mc provider))\<rparr>
      else (healthOf mc provider)\<lparr>Filtered :=
               recordTarget parse now provider modelData discoveryErr
                 (Filtered (healthOf mc provider))\<rparr>)"
  by (simp add: RecordProviderModelDiscoveryResult_def Let_def persist_keeps_health healthOf_def)

lemma record_target:
  "targetOf unfiltered (healthOf
     (RecordProviderModelDiscoveryResult parse now mc provider unfiltered modelData discoveryErr)
     provider) =
   recordTarget parse now provider modelData discoveryErr
     (targetOf unfiltered (healthOf mc provider))"
  by (simp add: healthOf_def [of "RecordProviderModelDiscoveryResult _ _ _ _ _ _ _"]
      record_health mapGet_mapSet targetOf_def)

lemma record_other_variant:
  "targetOf (\<not> unfiltered) (healthOf
     (RecordProviderModelDiscoveryResult parse now mc provider unfiltered modelData discoveryErr)
     provider) =
   targetOf (\<not> unfiltered) (healthOf mc provider)"
  by (simp add: healthOf_def [of "RecordProviderModelDiscoveryResult _ _ _ _ _ _ _"]
      record_health mapGet_mapSet targetOf_def)

lemma record_snapshot_time:
  "LastSnapshotUpdated (healthOf
     (RecordProviderModelDiscoveryResult parse now mc provider unfiltered modelData discoveryErr)
     provider) =
   LastSnapshotUpdated (healthOf mc provider)"
  by (simp add: healthOf_def [of "RecordProviderModelDiscoveryResult _ _ _ _ _ _ _"]
      record_health mapGet_mapSet)

lemma record_other_provider:
  "q \<noteq> provider \<Longrightarrow>
   healthOf
     (RecordProviderModelDiscoveryResult parse now mc provider unfiltered modelData discoveryErr)
     q = healthOf mc q"
  by (simp add: healthOf_def [of "RecordProviderModelDiscoveryResult _ _ _ _ _ _ _"]
      record_health mapGet_mapSet) (simp add: healthOf_def)

section \<open>Counting the models of a response\<close>

lemma providerModelNames_Cons:
  "providerModelNames parse provider (m # ms) =
     (if fst (parse (ID m) provider) = provider
        then snd (parse (ID m) provider) # providerModelNames parse provider ms
      else providerModelNames parse provider ms)"
  by (simp add: providerModelNames_def)

lemma countLoop_card:
  "countLoop parse provider ms seenModels count =
     count + int (card (set (providerModelNames parse provider ms) - set seenModels))"
proof (induction ms arbitrary: seenModels count)
  case Nil
  show ?case by (simp add: providerModelNames_def)
next
  case (Cons m ms)
  obtain pp pm where p: "parse (ID m) provider = (pp, pm)"
    by (cases "parse (ID m) provider")
  show ?case
  proof (cases "pp = provider")
    case False
    then show ?thesis
      by (simp add: p Cons.IH providerModelNames_Cons)
  next
    case True
    show ?thesis
    proof (cases "pm \<in> set seenModels")
      case True
      have "insert pm (set (providerModelNames parse provider ms)) - set seenModels =
            set (providerModelNames parse provider ms) - set seenModels"
        using True by auto
      then show ?thesis
        using \<open>pp = provider\<close> True by (simp add: p Cons.IH providerModelNames_Cons)
    next
      case False
      have eq: "insert pm (set (providerModelNames parse provider ms)) - set seenModels =
            insert pm (set (providerModelNames parse provider ms) - insert pm (set seenModels))"
        using False by auto
      have "card (insert pm (set (providerModelNames parse provider ms)) - set seenModels) =
            Suc (card (set (providerModelNames parse provider ms) - insert pm (set seenModels)))"
        unfolding eq by simp
      then show ?thesis
        using \<open>pp = provider\<close> False by (simp add: p Cons.IH providerModelNames_Cons)
    qed
  qed
qed

lemma count_is_card:
  "countProviderModelsInResponse parse provider modelData =
     (case modelData of
        None \<Rightarrow> 0
      | Some r \<Rightarrow> int (card (set (providerModelNames parse provider (Data r)))))"
  by (simp add: countProviderModelsInResponse_def countLoop_card providerModelNames_def
      split: option.splits)

lemma recordTarget_error:
  "recordTarget parse now provider modelData (Some e) target =
     target\<lparr>LastAttemptAt := now, LastErrorAt := now,
            LastError := extractDiscoveryErrorMessage (Some e)\<rparr>"
  by (simp add: recordTarget_def Let_def)

lemma recordTarget_success:
  "recordTarget parse now provider modelData None target =
     target\<lparr>LastAttemptAt := now, LastSuccessAt := now, LastErrorAt := 0, LastError := [],
            LastModelsCount := countProviderModelsInResponse parse provider modelData\<rparr>"
  by (simp add: recordTarget_def Let_def)

lemma status_after_success:
  "now \<noteq> 0 \<Longrightarrow> t - now \<le> 86400000000000 \<Longrightarrow>
   dh_Status (toProviderModelDiscoveryHealth
     (recordTarget parse now provider modelData None target) t) = ProviderModelHealthHealthy"
  by (simp add: recordTarget_success toProviderModelDiscoveryHealth_def Let_def IsZero_def
      Before_def Sub_gt_iff)

lemma parse_glm5: "ParseModelString ''glm/glm-5'' ''glm'' = (''glm'', ''glm-5'')"
  by (simp add: ParseModelString_def)

lemma parse_glm47: "ParseModelString ''glm/glm-4.7'' ''glm'' = (''glm'', ''glm-4.7'')"
  by (simp add: ParseModelString_def)

section \<open>Recording a failed discovery\<close>

text \<open>
  What a recording with a non-nil discovery error does for every input: it sets the
  attempt and error timestamps of the variant and stores whatever
  \<^verbatim>\<open>extractDiscoveryErrorMessage\<close> returns, while the prior success timestamp and
  last-models count of the variant, the whole state of the other variant, the snapshot
  time and the state of every other provider stay as they were.
\<close>

lemma record_error_frame:
  "LastAttemptAt (targetOf unfiltered (healthOf
      (RecordProviderModelDiscoveryResult parse now mc provider unfiltered modelData (Some e))
      provider)) = now \<and>
   LastErrorAt (targetOf unfiltered (healthOf
      (RecordProviderModelDiscoveryResult parse now mc provider unfiltered modelData (Some e))
      provider)) = now \<and>
   LastError (targetOf unfiltered (healthOf
      (RecordProviderModelDiscoveryResult parse now mc provider unfiltered modelData (Some e))
      provider)) = extractDiscoveryErrorMessage (Some e) \<and>
   extractDiscoveryErrorMessage (Some e) =
     (case be_Error e of
        None \<Rightarrow> ''model discovery failed''
      | Some f \<Rightarrow>
          if ef_Message f \<noteq> [] then ef_Message f
          else (case ef_Error f of Some msg \<Rightarrow> msg | None \<Rightarrow> ''model discovery failed'')) \<and>
   LastSuccessAt (targetOf unfiltered (healthOf
      (RecordProviderModelDiscoveryResult parse now mc provider unfiltered modelData (Some e))
      provider)) = LastSuccessAt (targetOf unfiltered (healthOf mc provider)) \<and>
   LastModelsCount (targetOf unfiltered (healthOf
      (RecordProviderModelDiscoveryResult parse now mc provider unfiltered modelData (Some e))
      provider)) = LastModelsCount (targetOf unfiltered (healthOf mc provider)) \<and>
   targetOf (\<not> unfiltered) (healthOf
      (RecordProviderModelDiscoveryResult parse now mc provider unfiltered modelData (Some e))
      provider) = targetOf (\<not> unfiltered) (healthOf mc provider) \<and>
   LastSnapshotUpdated (healthOf
      (RecordProviderModelDiscoveryResult parse now mc provider unfiltered modelData (Some e))
      provider) = LastSnapshotUpdated (healthOf mc provider) \<and>
   (\<forall>q. q \<noteq> provider \<longrightarrow> healthOf
      (RecordProviderModelDiscoveryResult parse now mc provider unfiltered modelData (Some e))
      q = healthOf mc q)"
  by (simp add: record_target record_other_variant record_snapshot_time record_other_provider
      recordTarget_error extractDiscoveryErrorMessage_def)

text \<open>
  Claim C4 asks for the generic message \<^verbatim>\<open>model discovery failed\<close> whenever the error
  carries no message. \<^verbatim>\<open>extractDiscoveryErrorMessage\<close> guards the message of the error
  field against the empty string but tests the wrapped error only against nil: for an
  error field with an empty message and a wrapped error whose text is empty, such as
  \<^verbatim>\<open>errors.New("")\<close>, the recording stores the empty string and not the generic
  message.
\<close>

theorem record_error_empty_wrapped_text:
  "LastErrorAt (targetOf False (healthOf
      (RecordProviderModelDiscoveryResult ParseModelString 2000 newTestCatalog ''minimax''
         False None (Some \<lparr>be_Error = Some \<lparr>ef_Message = [], ef_Error = Some []\<rparr>\<rparr>))
      ''minimax'')) = 2000 \<and>
   LastError (targetOf False (healthOf
      (RecordProviderModelDiscoveryResult ParseModelString 2000 newTestCatalog ''minimax''
         False None (Some \<lparr>be_Error = Some \<lparr>ef_Message = [], ef_Error = Some []\<rparr>\<rparr>))
      ''minimax'')) = [] \<and>
   LastError (targetOf False (healthOf
      (RecordProviderModelDiscoveryResult ParseModelString 2000 newTestCatalog ''minimax''
         False None (Some \<lparr>be_Error = Some \<lparr>ef_Message = [], ef_Error = Some []\<rparr>\<rparr>))
      ''minimax'')) \<noteq> ''model discovery failed''"
  by (simp add: record_target recordTarget_error extractDiscoveryErrorMessage_def)

section \<open>Recording a successful discovery\<close>

text \<open>
  Claim C5. For every provider and variant, \<^verbatim>\<open>RecordProviderModelDiscoveryResult\<close> with a
  nil discovery error sets the attempt and success timestamps, clears the error timestamp
  and message, and sets the last-models count to the number of distinct parsed model names
  among the entries whose parsed provider equals the expected provider (0 for a nil
  response), whatever parser is used. A response whose entries parse to m1, m2, m1 of the
  expected provider, with m1 and m2 different, yields the count 2; and the variant is
  healthy at any report time at most 24 hours after the recording.
\<close>

theorem record_success_counts:
  "LastAttemptAt (targetOf unfiltered (healthOf
      (RecordProviderModelDiscoveryResult parse now mc provider unfiltered modelData None)
      provider)) = now \<and>
   LastSuccessAt (targetOf unfiltered (healthOf
      (RecordProviderModelDiscoveryResult parse now mc provider unfiltered modelData None)
      provider)) = now \<and>
   LastErrorAt (targetOf unfiltered (healthOf
      (RecordProviderModelDiscoveryResult parse now mc provider unfiltered modelData None)
      provider)) = 0 \<and>
   LastError (targetOf unfiltered (healthOf
      (RecordProviderModelDiscoveryResult parse now mc provider unfiltered modelData None)
      provider)) = [] \<and>
   LastModelsCount (targetOf unfiltered (healthOf
      (RecordProviderModelDiscoveryResult parse now mc provider unfiltered modelData None)
      provider)) =
     (case modelData of
        None \<Rightarrow> 0
      | Some r \<Rightarrow> int (card (set (providerModelNames parse provider (Data r))))) \<and>
   (\<forall>a b m1 m2.
      modelData = Some \<lparr>Data = [\<lparr>ID = a\<rparr>, \<lparr>ID = b\<rparr>, \<lparr>ID = a\<rparr>]\<rparr> \<and>
      parse a provider = (provider, m1) \<and> parse b provider = (provider, m2) \<and> m1 \<noteq> m2 \<longrightarrow>
      LastModelsCount (targetOf unfiltered (healthOf
      (RecordProviderModelDiscoveryResult parse now mc provider unfiltered modelData None)
      provider)) = 2) \<and>
   (now \<noteq> 0 \<and> t - now \<le> 86400000000000 \<longrightarrow>
      dh_Status (toProviderModelDiscoveryHealth (targetOf unfiltered (healthOf
      (RecordProviderModelDiscoveryResult parse now mc provider unfiltered modelData None)
      provider)) t) = ProviderModelHealthHealthy)"
proof -
  have count: "LastModelsCount (targetOf unfiltered (healthOf
      (RecordProviderModelDiscoveryResult parse now mc provider unfiltered modelData None)
      provider)) =
     (case modelData of
        None \<Rightarrow> 0
      | Some r \<Rightarrow> int (card (set (providerModelNames parse provider (Data r)))))"
    by (simp add: record_target recordTarget_success count_is_card)
  have scenario: "LastModelsCount (targetOf unfiltered (healthOf
      (RecordProviderModelDiscoveryResult parse now mc provider unfiltered modelData None)
      provider)) = 2"
    if "modelData = Some \<lparr>Data = [\<lparr>ID = a\<rparr>, \<lparr>ID = b\<rparr>, \<lparr>ID = a\<rparr>]\<rparr>"
      and "parse a provider = (provider, m1)" and "parse b provider = (provider, m2)"
      and "m1 \<noteq> m2" for a b m1 m2
  proof -
    have "{m1, m2, m1} = {m1, m2}"
      by auto
    then have "card {m1, m2, m1} = 2"
      using that(4) by simp
    then show ?thesis
      using that count by (simp add: providerModelNames_def)
  qed
  have status: "dh_Status (toProviderModelDiscoveryHealth (targetOf unfiltered (healthOf
      (RecordProviderModelDiscoveryResult parse now mc provider unfiltered modelData None)
      provider)) t) = ProviderModelHealthHealthy"
    if "now \<noteq> 0" and "t - now \<le> 86400000000000"
    using that by (simp add: record_target status_after_success)
  show ?thesis
    using count scenario status
    by (simp add: record_target recordTarget_success)
qed

theorem record_success_counts_witness:
  "LastModelsCount (targetOf False (healthOf
      (RecordProviderModelDiscoveryResult ParseModelString 1000 newTestCatalog ''glm'' False
         (Some \<lparr>Data = [\<lparr>ID = ''glm/glm-5''\<rparr>, \<lparr>ID = ''glm/glm-4.7''\<rparr>,
                         \<lparr>ID = ''glm/glm-5''\<rparr>]\<rparr>) None)
      ''glm'')) = 2 \<and>
   dh_Status (toProviderModelDiscoveryHealth (targetOf False (healthOf
      (RecordProviderModelDiscoveryResult ParseModelString 1000 newTestCatalog ''glm'' False
         (Some \<lparr>Data = [\<lparr>ID = ''glm/glm-5''\<rparr>, \<lparr>ID = ''glm/glm-4.7''\<rparr>,
                         \<lparr>ID = ''glm/glm-5''\<rparr>]\<rparr>) None)
      ''glm'')) 2000) = ProviderModelHealthHealthy"
proof -
  note inst = record_success_counts [where unfiltered = False and parse = ParseModelString
      and now = 1000 and mc = newTestCatalog and provider = "''glm''"
      and modelData = "Some \<lparr>Data = [\<lparr>ID = ''glm/glm-5''\<rparr>, \<lparr>ID = ''glm/glm-4.7''\<rparr>,
                         \<lparr>ID = ''glm/glm-5''\<rparr>]\<rparr>" and t = 2000]
  note scenario = inst [THEN conjunct2, THEN conjunct2, THEN conjunct2, THEN conjunct2,
      THEN conjunct2, THEN conjunct1, rule_format,
      of "''glm/glm-5''" "''glm/glm-4.7''" "''glm-5''" "''glm-4.7''"]
  note status = inst [THEN conjunct2, THEN conjunct2, THEN conjunct2, THEN conjunct2,
      THEN conjunct2, THEN conjunct2, rule_format]
  have "LastModelsCount (targetOf False (healthOf
      (RecordProviderModelDiscoveryResult ParseModelString 1000 newTestCatalog ''glm'' False
         (Some \<lparr>Data = [\<lparr>ID = ''glm/glm-5''\<rparr>, \<lparr>ID = ''glm/glm-4.7''\<rparr>,
                         \<lparr>ID = ''glm/glm-5''\<rparr>]\<rparr>) None)
      ''glm'')) = 2"
    by (rule scenario) (simp add: parse_glm5 parse_glm47)
  moreover have "dh_Status (toProviderModelDiscoveryHealth (targetOf False (healthOf
      (RecordProviderModelDiscoveryResult ParseModelString 1000 newTestCatalog ''glm'' False
         (Some \<lparr>Data = [\<lparr>ID = ''glm/glm-5''\<rparr>, \<lparr>ID = ''glm/glm-4.7''\<rparr>,
                         \<lparr>ID = ''glm/glm-5''\<rparr>]\<rparr>) None)
      ''glm'')) 2000) = ProviderModelHealthHealthy"
    by (rule status) simp
  ultimately show ?thesis by simp
qed

text \<open>
  Claim C10. A nil discovery error counts as a success even when the response is nil or
  lists no model: the success timestamp is set, the previous error timestamp and message
  are cleared, the last-models count becomes 0, and the variant is healthy at any report
  time at most 24 hours after the recording.
\<close>

theorem record_success_without_models:
  "modelData = None \<or> (\<exists>r. modelData = Some r \<and> Data r = []) \<Longrightarrow>
   LastAttemptAt (targetOf unfiltered (healthOf
      (RecordProviderModelDiscoveryResult parse now mc provider unfiltered modelData None)
      provider)) = now \<and>
   LastSuccessAt (targetOf unfiltered (healthOf
      (RecordProviderModelDiscoveryResult parse now mc provider unfiltered modelData None)
      provider)) = now \<and>
   LastErrorAt (targetOf unfiltered (healthOf
      (RecordProviderModelDiscoveryResult parse now mc provider unfiltered modelData None)
      provider)) = 0 \<and>
   LastError (targetOf unfiltered (healthOf
      (RecordProviderModelDiscoveryResult parse now mc provider unfiltered modelData None)
      provider)) = [] \<and>
   LastModelsCount (targetOf unfiltered (healthOf
      (RecordProviderModelDiscoveryResult parse now mc provider unfiltered modelData None)
      provider)) = 0 \<and>
   (now \<noteq> 0 \<and> t - now \<le> 86400000000000 \<longrightarrow>
      dh_Status (toProviderModelDiscoveryHealth (targetOf unfiltered (healthOf
      (RecordProviderModelDiscoveryResult parse now mc provider unfiltered modelData None)
      provider)) t) = ProviderModelHealthHealthy)"
proof -
  assume empty: "modelData = None \<or> (\<exists>r. modelData = Some r \<and> Data r = [])"
  have zero: "countProviderModelsInResponse parse provider modelData = 0"
    using empty by (auto simp: countProviderModelsInResponse_def)
  have status: "dh_Status (toProviderModelDiscoveryHealth (targetOf unfiltered (healthOf
      (RecordProviderModelDiscoveryResult parse now mc provider unfiltered modelData None)
      provider)) t) = ProviderModelHealthHealthy"
    if "now \<noteq> 0" and "t - now \<le> 86400000000000"
    using that by (simp add: record_target status_after_success)
  show ?thesis
    using zero status by (simp add: record_target recordTarget_success)
qed

theorem record_success_without_models_witness:
  "LastSuccessAt (targetOf True (healthOf
      (RecordProviderModelDiscoveryResult ParseModelString 3000
         (newTestCatalog\<lparr>providerModelHealth :=
            [(''qwen'',
              \<lparr>Filtered = zeroDiscoveryState,
               Unfiltered = \<lparr>LastAttemptAt = 1000, LastSuccessAt = 0, LastErrorAt = 1000,
                              LastError = ''timeout'', LastModelsCount = 4\<rparr>,
               LastSnapshotUpdated = 0\<rparr>)]\<rparr>)
         ''qwen'' True None None)
      ''qwen'')) = 3000 \<and>
   LastError (targetOf True (healthOf
      (RecordProviderModelDiscoveryResult ParseModelString 3000
         (newTestCatalog\<lparr>providerModelHealth :=
            [(''qwen'',
              \<lparr>Filtered = zeroDiscoveryState,
               Unfiltered = \<lparr>LastAttemptAt = 1000, LastSuccessAt = 0, LastErrorAt = 1000,
                              LastError = ''timeout'', LastModelsCount = 4\<rparr>,
               LastSnapshotUpdated = 0\<rparr>)]\<rparr>)
         ''qwen'' True None None)
      ''qwen'')) = [] \<and>
   LastModelsCount (targetOf True (healthOf
      (RecordProviderModelDiscoveryResult ParseModelString 3000
         (newTestCatalog\<lparr>providerModelHealth :=
            [(''qwen'',
              \<lparr>Filtered = zeroDiscoveryState,
               Unfiltered = \<lparr>LastAttemptAt = 1000, LastSuccessAt = 0, LastErrorAt = 1000,
                              LastError = ''timeout'', LastModelsCount = 4\<rparr>,
               LastSnapshotUpdated = 0\<rparr>)]\<rparr>)
         ''qwen'' True None None)
      ''qwen'')) = 0 \<and>
   dh_Status (toProviderModelDiscoveryHealth (targetOf True (healthOf
      (RecordProviderModelDiscoveryResult ParseModelString 3000
         (newTestCatalog\<lparr>providerModelHealth :=
            [(''qwen'',
              \<lparr>Filtered = zeroDiscoveryState,
               Unfiltered = \<lparr>LastAttemptAt = 1000, LastSuccessAt = 0, LastErrorAt = 1000,
                              LastError = ''timeout'', LastModelsCount = 4\<rparr>,
               LastSnapshotUpdated = 0\<rparr>)]\<rparr>)
         ''qwen'' True None None)
      ''qwen'')) 3000) = ProviderModelHealthHealthy"
  using record_success_without_models [where modelData = None and unfiltered = True
      and parse = ParseModelString and now = 3000 and provider = "''qwen''" and t = 3000
      and mc = "newTestCatalog\<lparr>providerModelHealth :=
            [(''qwen'',
              \<lparr>Filtered = zeroDiscoveryState,
               Unfiltered = \<lparr>LastAttemptAt = 1000, LastSuccessAt = 0, LastErrorAt = 1000,
                              LastError = ''timeout'', LastModelsCount = 4\<rparr>,
               LastSnapshotUpdated = 0\<rparr>)]\<rparr>"]
  by simp

section \<open>Recording without a persistence collaborator\<close>

text \<open>
  Claim C8. When the catalog has no custom flush callback and no config store that
  implements the health store interface, \<^verbatim>\<open>RecordProviderModelDiscoveryResult\<close> raises no
  persistence signal, performs no store write and invokes no callback, while the health
  map is updated exactly as it is for a catalog with any other persistence configuration.
\<close>

theorem record_without_collaborator:
  assumes "providerModelHealthPersistCallback mc = None"
    and "\<forall>store. configStore mc = Some store \<longrightarrow> \<not> implementsHealthStore store"
  shows "providerModelHealthPersistSignal (RecordProviderModelDiscoveryResult parse now mc provider unfiltered modelData
       discoveryErr) = providerModelHealthPersistSignal mc \<and>
    configStore (RecordProviderModelDiscoveryResult parse now mc provider unfiltered modelData
       discoveryErr) = configStore mc \<and>
    providerModelHealthPersistCallback (RecordProviderModelDiscoveryResult parse now mc provider unfiltered modelData
       discoveryErr) = None \<and>
    targetOf unfiltered (healthOf (RecordProviderModelDiscoveryResult parse now mc provider unfiltered modelData
       discoveryErr) provider) =
      recordTarget parse now provider modelData discoveryErr
        (targetOf unfiltered (healthOf mc provider)) \<and>
    targetOf (\<not> unfiltered) (healthOf (RecordProviderModelDiscoveryResult parse now mc provider unfiltered modelData
       discoveryErr) provider) =
      targetOf (\<not> unfiltered) (healthOf mc provider) \<and>
    (\<forall>mc2. providerModelHealth mc2 = providerModelHealth mc \<longrightarrow>
       providerModelHealth (RecordProviderModelDiscoveryResult parse now mc2 provider unfiltered modelData
       discoveryErr) = providerModelHealth (RecordProviderModelDiscoveryResult parse now mc provider unfiltered modelData
       discoveryErr))"
proof -
  have nostore: "getProviderModelHealthStore m = None"
    if "configStore m = configStore mc" for m
    using assms(2) that by (simp add: getProviderModelHealthStore_def split: option.splits)
  have noop: "persistProviderModelHealthState m = m"
    if "configStore m = configStore mc" and "providerModelHealthPersistCallback m = None" for m
    using that nostore [of m]
    by (simp add: persistProviderModelHealthState_def shouldPersistProviderModelHealthState_def)
  have same: "providerModelHealth (RecordProviderModelDiscoveryResult parse now mc2 provider unfiltered modelData
       discoveryErr) = providerModelHealth (RecordProviderModelDiscoveryResult parse now mc provider unfiltered modelData
       discoveryErr)"
    if "providerModelHealth mc2 = providerModelHealth mc" for mc2
    using that by (simp add: record_health healthOf_def)
  have eq: "RecordProviderModelDiscoveryResult parse now mc provider unfiltered modelData
       discoveryErr =
     mc\<lparr>providerModelHealth :=
          providerModelHealth (RecordProviderModelDiscoveryResult parse now mc provider
            unfiltered modelData discoveryErr)\<rparr>"
    unfolding record_health
    by (simp add: RecordProviderModelDiscoveryResult_def Let_def noop assms(1) healthOf_def)
  have a: "providerModelHealthPersistSignal (RecordProviderModelDiscoveryResult parse now mc
       provider unfiltered modelData discoveryErr) = providerModelHealthPersistSignal mc"
    by (subst eq) simp
  have b: "configStore (RecordProviderModelDiscoveryResult parse now mc
       provider unfiltered modelData discoveryErr) = configStore mc"
    by (subst eq) simp
  have c: "providerModelHealthPersistCallback (RecordProviderModelDiscoveryResult parse now mc
       provider unfiltered modelData discoveryErr) = None"
    by (subst eq) (simp add: assms(1))
  show ?thesis
    using a b c same record_target record_other_variant by blast
qed

theorem record_without_collaborator_witness:
  "providerModelHealthPersistSignal
     (RecordProviderModelDiscoveryResult ParseModelString 1000
        (newTestCatalog\<lparr>providerModelHealthPersistSignal := Some 0\<rparr>) ''glm'' False
        (Some \<lparr>Data = [\<lparr>ID = ''glm/glm-5''\<rparr>]\<rparr>) None) = Some 0 \<and>
   configStore
     (RecordProviderModelDiscoveryResult ParseModelString 1000
        (newTestCatalog\<lparr>providerModelHealthPersistSignal := Some 0\<rparr>) ''glm'' False
        (Some \<lparr>Data = [\<lparr>ID = ''glm/glm-5''\<rparr>]\<rparr>) None) = None \<and>
   providerModelHealthPersistCallback
     (RecordProviderModelDiscoveryResult ParseModelString 1000
        (newTestCatalog\<lparr>providerModelHealthPersistSignal := Some 0\<rparr>) ''glm'' False
        (Some \<lparr>Data = [\<lparr>ID = ''glm/glm-5''\<rparr>]\<rparr>) None) = None \<and>
   LastSuccessAt (targetOf False (healthOf
     (RecordProviderModelDiscoveryResult ParseModelString 1000
        (newTestCatalog\<lparr>providerModelHealthPersistSignal := Some 0\<rparr>) ''glm'' False
        (Some \<lparr>Data = [\<lparr>ID = ''glm/glm-5''\<rparr>]\<rparr>) None) ''glm'')) = 1000 \<and>
   providerModelHealth
     (RecordProviderModelDiscoveryResult ParseModelString 1000
        (newTestCatalog\<lparr>providerModelHealthPersistCallback := Some 0\<rparr>) ''glm'' False
        (Some \<lparr>Data = [\<lparr>ID = ''glm/glm-5''\<rparr>]\<rparr>) None) =
   providerModelHealth
     (RecordProviderModelDiscoveryResult ParseModelString 1000
        (newTestCatalog\<lparr>providerModelHealthPersistSignal := Some 0\<rparr>) ''glm'' False
        (Some \<lparr>Data = [\<lparr>ID = ''glm/glm-5''\<rparr>]\<rparr>) None)"
proof -
  have cb: "providerModelHealthPersistCallback
      (newTestCatalog\<lparr>providerModelHealthPersistSignal := Some 0\<rparr>) = None"
    by (simp add: newTestCatalog_def)
  have st: "\<forall>store. configStore (newTestCatalog\<lparr>providerModelHealthPersistSignal := Some 0\<rparr>) =
      Some store \<longrightarrow> \<not> implementsHealthStore store"
    by (simp add: newTestCatalog_def)
  have cs: "configStore (newTestCatalog\<lparr>providerModelHealthPersistSignal := Some 0\<rparr>) = None"
    by (simp add: newTestCatalog_def)
  note inst = record_without_collaborator [OF cb st, where parse = ParseModelString
      and now = 1000 and provider = "''glm''" and unfiltered = False
      and modelData = "Some \<lparr>Data = [\<lparr>ID = ''glm/glm-5''\<rparr>]\<rparr>" and discoveryErr = None]
  note effects = inst [THEN conjunct1] inst [THEN conjunct2, THEN conjunct1]
    inst [THEN conjunct2, THEN conjunct2, THEN conjunct1]
  note target = inst [THEN conjunct2, THEN conjunct2, THEN conjunct2, THEN conjunct1]
  note same = inst [THEN conjunct2, THEN conjunct2, THEN conjunct2, THEN conjunct2,
      THEN conjunct2, rule_format,
      of "newTestCatalog\<lparr>providerModelHealthPersistCallback := Some 0\<rparr>"]
  have health: "providerModelHealth
      (newTestCatalog\<lparr>providerModelHealthPersistCallback := Some 0\<rparr>) =
    providerModelHealth (newTestCatalog\<lparr>providerModelHealthPersistSignal := Some 0\<rparr>)"
    by simp
  have success: "LastSuccessAt (targetOf False (healthOf
     (RecordProviderModelDiscoveryResult ParseModelString 1000
        (newTestCatalog\<lparr>providerModelHealthPersistSignal := Some 0\<rparr>) ''glm'' False
        (Some \<lparr>Data = [\<lparr>ID = ''glm/glm-5''\<rparr>]\<rparr>) None) ''glm'')) = 1000"
    unfolding target by (simp add: recordTarget_success)
  show ?thesis
    using effects success same [OF health] by (simp add: cs)
qed

section \<open>The persisted payload\<close>

lemma mapGet_absent: "k \<notin> set (mapKeys m) \<Longrightarrow> mapGet zero m k = zero"
proof -
  assume "k \<notin> set (mapKeys m)"
  then have "map_of m k = None"
    by (simp add: mapKeys_def map_of_eq_None_iff)
  then show ?thesis
    by (simp add: mapGet_def)
qed

lemma persistLoop_lookup:
  "map_of (persistLoop mc providers persistedState) p =
     (if p \<in> set providers \<and> \<not> isPersistedProviderModelHealthStateEmpty (persistedEntry mc p)
        then Some (persistedEntry mc p)
      else map_of persistedState p)"
proof (induction providers arbitrary: persistedState)
  case Nil
  show ?case by simp
next
  case (Cons q providers)
  show ?case
    by (simp add: Let_def Cons.IH mapSet_def update_conv')
qed

lemma zero_entry_empty:
  "isPersistedProviderModelHealthStateEmpty
     \<lparr>ps_Filtered = zeroDiscoveryState, ps_Unfiltered = zeroDiscoveryState,
      ps_LastSnapshotUpdated = 0, ps_FilteredSource = [], ps_UnfilteredSource = []\<rparr>"
  by (simp add: isPersistedProviderModelHealthStateEmpty_def zeroDiscoveryState_def IsZero_def)

lemma untouched_entry_empty:
  assumes "p \<notin> set (mapKeys (providerModelHealth mc))"
    and "p \<notin> set (mapKeys (providerModelSources mc))"
    and "p \<notin> set (mapKeys (unfilteredProviderModelSources mc))"
  shows "isPersistedProviderModelHealthStateEmpty (persistedEntry mc p)"
  using assms zero_entry_empty
  by (simp add: persistedEntry_def mapGet_absent zeroHealthState_def)

lemma persisted_lookup:
  "map_of (getPersistedProviderModelHealthState mc) p =
     (if isPersistedProviderModelHealthStateEmpty (persistedEntry mc p) then None
      else Some (persistedEntry mc p))"
  using untouched_entry_empty [of p mc]
  by (auto simp: getPersistedProviderModelHealthState_def Let_def persistLoop_lookup)

lemma empty_entry_iff:
  "isPersistedProviderModelHealthStateEmpty (persistedEntry mc p) =
     (Filtered (healthOf mc p) = zeroDiscoveryState \<and>
      Unfiltered (healthOf mc p) = zeroDiscoveryState \<and>
      LastSnapshotUpdated (healthOf mc p) = 0 \<and>
      mapGet [] (providerModelSources mc) p = [] \<and>
      mapGet [] (unfilteredProviderModelSources mc) p = [])"
proof -
  have z: "(s = zeroDiscoveryState) =
     (LastAttemptAt s = 0 \<and> LastSuccessAt s = 0 \<and> LastErrorAt s = 0 \<and> LastError s = [] \<and>
      LastModelsCount s = 0)" for s :: providerDiscoveryState
    by (cases s) (simp add: zeroDiscoveryState_def)
  show ?thesis
    by (auto simp: isPersistedProviderModelHealthStateEmpty_def persistedEntry_def healthOf_def
        IsZero_def z)
qed

text \<open>
  Claim C6. For every provider, the persisted health payload omits the provider's record
  if and only if the record is all-zero: no attempt, success or error timestamp, no error
  message and a zero last-models count in both variants, a zero last-snapshot-updated
  time and both source tags empty. Any other record, including one that only has a
  source tag, is persisted, with exactly the fields of the catalog.
\<close>

theorem persisted_omits_exactly_zero_records:
  "(map_of (getPersistedProviderModelHealthState mc) provider = None) =
     (LastAttemptAt (Filtered (healthOf mc provider)) = 0 \<and>
      LastSuccessAt (Filtered (healthOf mc provider)) = 0 \<and>
      LastErrorAt (Filtered (healthOf mc provider)) = 0 \<and>
      LastError (Filtered (healthOf mc provider)) = [] \<and>
      LastModelsCount (Filtered (healthOf mc provider)) = 0 \<and>
      LastAttemptAt (Unfiltered (healthOf mc provider)) = 0 \<and>
      LastSuccessAt (Unfiltered (healthOf mc provider)) = 0 \<and>
      LastErrorAt (Unfiltered (healthOf mc provider)) = 0 \<and>
      LastError (Unfiltered (healthOf mc provider)) = [] \<and>
      LastModelsCount (Unfiltered (healthOf mc provider)) = 0 \<and>
      LastSnapshotUpdated (healthOf mc provider) = 0 \<and>
      mapGet [] (providerModelSources mc) provider = [] \<and>
      mapGet [] (unfilteredProviderModelSources mc) provider = []) \<and>
   (map_of (getPersistedProviderModelHealthState mc) provider \<noteq> None \<longrightarrow>
    map_of (getPersistedProviderModelHealthState mc) provider =
      Some \<lparr>ps_Filtered = Filtered (healthOf mc provider),
            ps_Unfiltered = Unfiltered (healthOf mc provider),
            ps_LastSnapshotUpdated = LastSnapshotUpdated (healthOf mc provider),
            ps_FilteredSource = mapGet [] (providerModelSources mc) provider,
            ps_UnfilteredSource = mapGet [] (unfilteredProviderModelSources mc) provider\<rparr>)"
proof -
  have z: "(s = zeroDiscoveryState) =
     (LastAttemptAt s = 0 \<and> LastSuccessAt s = 0 \<and> LastErrorAt s = 0 \<and> LastError s = [] \<and>
      LastModelsCount s = 0)" for s :: providerDiscoveryState
    by (cases s) (simp add: zeroDiscoveryState_def)
  have e: "persistedEntry mc provider =
      \<lparr>ps_Filtered = Filtered (healthOf mc provider),
       ps_Unfiltered = Unfiltered (healthOf mc provider),
       ps_LastSnapshotUpdated = LastSnapshotUpdated (healthOf mc provider),
       ps_FilteredSource = mapGet [] (providerModelSources mc) provider,
       ps_UnfilteredSource = mapGet [] (unfilteredProviderModelSources mc) provider\<rparr>"
    by (simp add: persistedEntry_def healthOf_def)
  show ?thesis
    unfolding persisted_lookup empty_entry_iff z e [symmetric]
    by simp
qed

theorem persisted_omits_exactly_zero_records_witness:
  "map_of (getPersistedProviderModelHealthState
      (newTestCatalog\<lparr>providerModelSources := [(''glm'', ProviderModelSourceDefaultSeed)],
         unfilteredProviderModelSources :=
           [(''glm'', ProviderModelSourcePersistedSnapshot)]\<rparr>)) ''glm'' =
     Some \<lparr>ps_Filtered = zeroDiscoveryState, ps_Unfiltered = zeroDiscoveryState,
           ps_LastSnapshotUpdated = 0, ps_FilteredSource = ''default_seed'',
           ps_UnfilteredSource = ''persisted_snapshot''\<rparr> \<and>
   map_of (getPersistedProviderModelHealthState
      (newTestCatalog\<lparr>providerModelSources := [(''glm'', ProviderModelSourceDefaultSeed)],
         unfilteredProviderModelSources :=
           [(''glm'', ProviderModelSourcePersistedSnapshot)]\<rparr>)) ''qwen'' = None"
  using
    persisted_omits_exactly_zero_records [of
      "newTestCatalog\<lparr>providerModelSources := [(''glm'', ProviderModelSourceDefaultSeed)],
         unfilteredProviderModelSources :=
           [(''glm'', ProviderModelSourcePersistedSnapshot)]\<rparr>" "''glm''"]
    persisted_omits_exactly_zero_records [of
      "newTestCatalog\<lparr>providerModelSources := [(''glm'', ProviderModelSourceDefaultSeed)],
         unfilteredProviderModelSources :=
           [(''glm'', ProviderModelSourcePersistedSnapshot)]\<rparr>" "''qwen''"]
  by (simp add: healthOf_def mapGet_def newTestCatalog_def zeroHealthState_def
      zeroDiscoveryState_def ProviderModelSourceDefaultSeed_def
      ProviderModelSourcePersistedSnapshot_def)

section \<open>Determinism of the report\<close>

lemma report_eq:
  "GetProviderModelSnapshotHealthReport mc now =
     \<lparr>rp_Status = reportStatus (fold countStatus
        (map ph_Status (map (healthItem mc now) (sortedProviders mc))) zeroSummary),
      rp_GeneratedAt = now,
      rp_StaleAfterSeconds = SecondsInt64 DefaultProviderModelSnapshotStaleAfter,
      rp_Summary = fold countStatus
        (map ph_Status (map (healthItem mc now) (sortedProviders mc))) zeroSummary,
      rp_Providers = map (healthItem mc now) (sortedProviders mc)\<rparr>"
  by (simp add: GetProviderModelSnapshotHealthReport_def reportLoop_eq comp_def)

lemma discovery_health_time:
  "(86400000000000 < nowA - LastSuccessAt s) = (86400000000000 < nowB - LastSuccessAt s) \<Longrightarrow>
   toProviderModelDiscoveryHealth s nowA = toProviderModelDiscoveryHealth s nowB"
  by (simp add: toProviderModelDiscoveryHealth_def Let_def Sub_gt_iff)

lemma healthItem_time:
  assumes "(86400000000000 < nowA - LastSuccessAt (Filtered (healthOf mc p))) =
           (86400000000000 < nowB - LastSuccessAt (Filtered (healthOf mc p)))"
    and "(86400000000000 < nowA - LastSuccessAt (Unfiltered (healthOf mc p))) =
         (86400000000000 < nowB - LastSuccessAt (Unfiltered (healthOf mc p)))"
  shows "healthItem mc nowA p = healthItem mc nowB p"
  using discovery_health_time [OF assms(1)] discovery_health_time [OF assms(2)]
  by (simp add: healthItem_def Let_def healthOf_def)

lemma set_sortedProviders: "set (sortedProviders mc) = set (providerSet mc)"
  by (simp add: sortedProviders_def)

lemma providers_of_items: "map ph_Provider (map (healthItem mc now) ps) = ps"
  by (induction ps) (simp_all add: healthItem_def Let_def)

lemma set_providerSet:
  "set (providerSet mc) =
     dom (map_of (modelPool mc)) \<union> dom (map_of (unfilteredModelPool mc)) \<union>
     dom (map_of (providerModelSnapshots mc)) \<union> dom (map_of (providerModelSources mc)) \<union>
     dom (map_of (unfilteredProviderModelSources mc)) \<union> dom (map_of (providerModelHealth mc))"
  by (auto simp: providerSet_def mapKeys_def dom_map_of_conv_image_fst)

lemma staleTestCatalog_providers: "sortedProviders staleTestCatalog = [''moonshot'']"
  by (simp add: sortedProviders_def providerSet_def mapKeys_def staleTestCatalog_def
      newTestCatalog_def)

lemma staleTestCatalog_at_threshold:
  "rp_Status (GetProviderModelSnapshotHealthReport staleTestCatalog 86400000001000) =
     ProviderModelHealthHealthy"
  by (simp add: report_eq staleTestCatalog_providers)
    (simp add: staleTestCatalog_def newTestCatalog_def healthItem_def Let_def mapGet_def
      toProviderModelDiscoveryHealth_def IsZero_def Before_def Sub_gt_iff
      mergeProviderHealthStatus_def countStatus_def zeroSummary_def reportStatus_def)

lemma staleTestCatalog_past_threshold:
  "rp_Status (GetProviderModelSnapshotHealthReport staleTestCatalog 86400000001001) =
     ProviderModelHealthDegraded"
  by (simp add: report_eq staleTestCatalog_providers)
    (simp add: staleTestCatalog_def newTestCatalog_def healthItem_def Let_def mapGet_def
      toProviderModelDiscoveryHealth_def IsZero_def Before_def Sub_gt_iff
      mergeProviderHealthStatus_def countStatus_def zeroSummary_def reportStatus_def)

lemma staleTestCatalog_health:
  "healthOf staleTestCatalog ''moonshot'' =
     \<lparr>Filtered = \<lparr>LastAttemptAt = 1000, LastSuccessAt = 1000, LastErrorAt = 0,
                   LastError = [], LastModelsCount = 1\<rparr>,
      Unfiltered = \<lparr>LastAttemptAt = 1000, LastSuccessAt = 1000, LastErrorAt = 0,
                     LastError = [], LastModelsCount = 1\<rparr>,
      LastSnapshotUpdated = 0\<rparr>"
  by (simp add: healthOf_def mapGet_def staleTestCatalog_def newTestCatalog_def)

lemma staleTestCatalog_providerSet: "providerSet staleTestCatalog = [''moonshot'']"
  by (simp add: providerSet_def mapKeys_def staleTestCatalog_def newTestCatalog_def)

text \<open>
  Claim C7, as amended. The report is a function of the catalog state and the current
  time alone, whatever the iteration order of the maps. Two calls with no intervening
  mutation yield reports that are identical except for the generation timestamp whenever
  no recorded success of a listed provider crosses the 24 hour staleness threshold between
  the two calls. In every report the providers are the union of the keys of the pool,
  snapshot, source and health maps, each once, sorted lexicographically.
\<close>

theorem report_determined_by_state_and_staleness:
  "((\<forall>p \<in> set (providerSet mc).
       ((86400000000000 < nowA - LastSuccessAt (Filtered (healthOf mc p))) =
        (86400000000000 < nowB - LastSuccessAt (Filtered (healthOf mc p)))) \<and>
       ((86400000000000 < nowA - LastSuccessAt (Unfiltered (healthOf mc p))) =
        (86400000000000 < nowB - LastSuccessAt (Unfiltered (healthOf mc p))))) \<longrightarrow>
    (GetProviderModelSnapshotHealthReport mc nowA)\<lparr>rp_GeneratedAt := g\<rparr> =
    (GetProviderModelSnapshotHealthReport mc nowB)\<lparr>rp_GeneratedAt := g\<rparr>) \<and>
   sorted (map ph_Provider (rp_Providers (GetProviderModelSnapshotHealthReport mc now))) \<and>
   distinct (map ph_Provider (rp_Providers (GetProviderModelSnapshotHealthReport mc now))) \<and>
   set (map ph_Provider (rp_Providers (GetProviderModelSnapshotHealthReport mc now))) =
     dom (map_of (modelPool mc)) \<union> dom (map_of (unfilteredModelPool mc)) \<union>
     dom (map_of (providerModelSnapshots mc)) \<union> dom (map_of (providerModelSources mc)) \<union>
     dom (map_of (unfilteredProviderModelSources mc)) \<union> dom (map_of (providerModelHealth mc))"
proof -
  have items: "map (healthItem mc nowA) (sortedProviders mc) =
               map (healthItem mc nowB) (sortedProviders mc)"
    if "\<forall>p \<in> set (providerSet mc).
       ((86400000000000 < nowA - LastSuccessAt (Filtered (healthOf mc p))) =
        (86400000000000 < nowB - LastSuccessAt (Filtered (healthOf mc p)))) \<and>
       ((86400000000000 < nowA - LastSuccessAt (Unfiltered (healthOf mc p))) =
        (86400000000000 < nowB - LastSuccessAt (Unfiltered (healthOf mc p))))"
  proof (rule map_cong [OF refl])
    fix p assume "p \<in> set (sortedProviders mc)"
    then have "p \<in> set (providerSet mc)"
      by (simp add: set_sortedProviders)
    with that show "healthItem mc nowA p = healthItem mc nowB p"
      by (intro healthItem_time) blast+
  qed
  have same: "(GetProviderModelSnapshotHealthReport mc nowA)\<lparr>rp_GeneratedAt := g\<rparr> =
    (GetProviderModelSnapshotHealthReport mc nowB)\<lparr>rp_GeneratedAt := g\<rparr>"
    if "\<forall>p \<in> set (providerSet mc).
       ((86400000000000 < nowA - LastSuccessAt (Filtered (healthOf mc p))) =
        (86400000000000 < nowB - LastSuccessAt (Filtered (healthOf mc p)))) \<and>
       ((86400000000000 < nowA - LastSuccessAt (Unfiltered (healthOf mc p))) =
        (86400000000000 < nowB - LastSuccessAt (Unfiltered (healthOf mc p))))"
    unfolding report_eq items [OF that] by simp
  have names: "map ph_Provider (rp_Providers (GetProviderModelSnapshotHealthReport mc now)) =
      sortedProviders mc"
    unfolding report_eq by (simp only: ProviderModelSnapshotHealthReport.simps providers_of_items)
  have srt: "sorted (sortedProviders mc)"
    by (simp add: sortedProviders_def)
  have dst: "distinct (sortedProviders mc)"
    by (simp add: sortedProviders_def providerSet_def)
  show ?thesis
    unfolding names using same srt dst
    by (simp add: set_sortedProviders set_providerSet)
qed

theorem report_determined_by_state_and_staleness_witness:
  "(GetProviderModelSnapshotHealthReport staleTestCatalog 172800000001000)
      \<lparr>rp_GeneratedAt := 0\<rparr> =
   (GetProviderModelSnapshotHealthReport staleTestCatalog 172800000002000)
      \<lparr>rp_GeneratedAt := 0\<rparr> \<and>
   set (map ph_Provider (rp_Providers
      (GetProviderModelSnapshotHealthReport staleTestCatalog 172800000001000))) =
     {''moonshot''}"
proof -
  note inst = report_determined_by_state_and_staleness [where mc = staleTestCatalog
      and nowA = 172800000001000 and nowB = 172800000002000 and g = 0
      and now = 172800000001000]
  have doms: "dom (map_of (modelPool staleTestCatalog)) \<union>
      dom (map_of (unfilteredModelPool staleTestCatalog)) \<union>
      dom (map_of (providerModelSnapshots staleTestCatalog)) \<union>
      dom (map_of (providerModelSources staleTestCatalog)) \<union>
      dom (map_of (unfilteredProviderModelSources staleTestCatalog)) \<union>
      dom (map_of (providerModelHealth staleTestCatalog)) = {''moonshot''}"
    by (simp add: staleTestCatalog_def newTestCatalog_def)
  show ?thesis
    using inst unfolding doms
    by (simp add: staleTestCatalog_providerSet staleTestCatalog_health)
qed

text \<open>
  Claim C7 as stated fails: statuses are derived from the current time, so two calls on
  the same state differ in more than the generation timestamp when a success turns stale
  between them. With both successes recorded at 1000, the report taken exactly 24 hours
  later is healthy and the one taken a nanosecond after that is degraded.
\<close>

theorem report_changes_with_time_counterexample:
  "(GetProviderModelSnapshotHealthReport staleTestCatalog 86400000001000)
      \<lparr>rp_GeneratedAt := 0\<rparr> \<noteq>
   (GetProviderModelSnapshotHealthReport staleTestCatalog 86400000001001)
      \<lparr>rp_GeneratedAt := 0\<rparr>"
proof
  assume "(GetProviderModelSnapshotHealthReport staleTestCatalog 86400000001000)
      \<lparr>rp_GeneratedAt := 0\<rparr> =
   (GetProviderModelSnapshotHealthReport staleTestCatalog 86400000001001)
      \<lparr>rp_GeneratedAt := 0\<rparr>"
  then have "rp_Status ((GetProviderModelSnapshotHealthReport staleTestCatalog 86400000001000)
      \<lparr>rp_GeneratedAt := 0\<rparr>) =
    rp_Status ((GetProviderModelSnapshotHealthReport staleTestCatalog 86400000001001)
      \<lparr>rp_GeneratedAt := 0\<rparr>)"
    by (rule arg_cong)
  then show False
    by (simp add: staleTestCatalog_at_threshold staleTestCatalog_past_threshold)
qed

section \<open>Fallback tiers of the pool resolution\<close>

lemma persist_keeps_pools:
  "modelPool (persistProviderModelHealthState mc) = modelPool mc \<and>
   unfilteredModelPool (persistProviderModelHealthState mc) = unfilteredModelPool mc \<and>
   providerModelSnapshots (persistProviderModelHealthState mc) = providerModelSnapshots mc \<and>
   providerModelSources (persistProviderModelHealthState mc) = providerModelSources mc \<and>
   unfilteredProviderModelSources (persistProviderModelHealthState mc) =
     unfilteredProviderModelSources mc"
  by (simp add: persistProviderModelHealthState_def persistProviderModelHealthStateNow_def
      split: option.splits)

lemma resolveFallbackPool_tiers:
  "resolveFallbackPool mc provider =
     (if mapGet [] (providerModelSnapshots mc) provider \<noteq> []
        then Some (mapGet [] (providerModelSnapshots mc) provider,
                   ProviderModelSourcePersistedSnapshot)
      else if pricingModelsForProvider mc provider \<noteq> []
        then Some (pricingModelsForProvider mc provider, ProviderModelSourcePricingCatalog)
      else if getDefaultModelsForProvider provider \<noteq> []
        then Some (getDefaultModelsForProvider provider, ProviderModelSourceDefaultSeed)
      else None)"
  by (simp add: resolveFallbackPool_def fallbackTiers_def)

lemma upsert_fallback:
  assumes "liveDiscoveryModels parse base provider modelData = []"
    and "resolveFallbackPool mc provider = Some (pool, source)"
  shows "GetModelsForProvider
      (UpsertModelDataForProvider parse base mc provider modelData discoveryErr) provider = pool"
    and "mapGet [] (providerModelSources
      (UpsertModelDataForProvider parse base mc provider modelData discoveryErr)) provider =
      source"
    and "providerModelSnapshots
      (UpsertModelDataForProvider parse base mc provider modelData discoveryErr) =
      providerModelSnapshots mc"
    and "GetUnfilteredModelsForProvider
      (UpsertUnfilteredModelDataForProvider parse base mc provider modelData) provider = pool"
    and "mapGet [] (unfilteredProviderModelSources
      (UpsertUnfilteredModelDataForProvider parse base mc provider modelData)) provider =
      source"
    and "providerModelSnapshots
      (UpsertUnfilteredModelDataForProvider parse base mc provider modelData) =
      providerModelSnapshots mc"
  using assms
  by (simp_all add: UpsertModelDataForProvider_def UpsertUnfilteredModelDataForProvider_def
      GetModelsForProvider_def GetUnfilteredModelsForProvider_def Let_def persist_keeps_pools
      mapGet_mapSet)

lemma no_live_models_in_empty_response:
  "liveDiscoveryModels parse base provider (Some \<lparr>Data = []\<rparr>) = []"
  by (simp add: liveDiscoveryModels_def providerModelNames_def appendUniqueModels_def)

text \<open>
  Claim C9. When an upsert of either variant gets no usable discovery data, the pool is
  resolved from the fallback tiers in strict precedence order, the first non-empty tier
  winning: a non-empty durable snapshot gives the pool exactly, whatever the pricing
  entries and the default seeds are; otherwise the pricing entries of the provider, if
  there are any; otherwise the default seed list. The source tag is the tag of the tier
  that produced the pool, and the snapshot itself is left as it was.
\<close>

theorem upsert_fallback_precedence:
  assumes "liveDiscoveryModels parse base provider modelData = []"
  shows
   "(mapGet [] (providerModelSnapshots mc) provider \<noteq> [] \<longrightarrow>
       GetModelsForProvider (UpsertModelDataForProvider parse base mc provider modelData discoveryErr) provider = mapGet [] (providerModelSnapshots mc) provider \<and>
       mapGet [] (providerModelSources (UpsertModelDataForProvider parse base mc provider modelData discoveryErr)) provider = ProviderModelSourcePersistedSnapshot \<and>
       GetUnfilteredModelsForProvider (UpsertUnfilteredModelDataForProvider parse base mc provider modelData) provider =
         mapGet [] (providerModelSnapshots mc) provider \<and>
       mapGet [] (unfilteredProviderModelSources (UpsertUnfilteredModelDataForProvider parse base mc provider modelData)) provider =
         ProviderModelSourcePersistedSnapshot) \<and>
    (mapGet [] (providerModelSnapshots mc) provider = [] \<and>
     pricingModelsForProvider mc provider \<noteq> [] \<longrightarrow>
       GetModelsForProvider (UpsertModelDataForProvider parse base mc provider modelData discoveryErr) provider = pricingModelsForProvider mc provider \<and>
       mapGet [] (providerModelSources (UpsertModelDataForProvider parse base mc provider modelData discoveryErr)) provider = ProviderModelSourcePricingCatalog \<and>
       GetUnfilteredModelsForProvider (UpsertUnfilteredModelDataForProvider parse base mc provider modelData) provider = pricingModelsForProvider mc provider \<and>
       mapGet [] (unfilteredProviderModelSources (UpsertUnfilteredModelDataForProvider parse base mc provider modelData)) provider =
         ProviderModelSourcePricingCatalog) \<and>
    (mapGet [] (providerModelSnapshots mc) provider = [] \<and>
     pricingModelsForProvider mc provider = [] \<and>
     getDefaultModelsForProvider provider \<noteq> [] \<longrightarrow>
       GetModelsForProvider (UpsertModelDataForProvider parse base mc provider modelData discoveryErr) provider = getDefaultModelsForProvider provider \<and>
       mapGet [] (providerModelSources (UpsertModelDataForProvider parse base mc provider modelData discoveryErr)) provider = ProviderModelSourceDefaultSeed \<and>
       GetUnfilteredModelsForProvider (UpsertUnfilteredModelDataForProvider parse base mc provider modelData) provider = getDefaultModelsForProvider provider \<and>
       mapGet [] (unfilteredProviderModelSources (UpsertUnfilteredModelDataForProvider parse base mc provider modelData)) provider =
         ProviderModelSourceDefaultSeed) \<and>
    providerModelSnapshots (UpsertModelDataForProvider parse base mc provider modelData discoveryErr) = providerModelSnapshots mc \<and>
    providerModelSnapshots (UpsertUnfilteredModelDataForProvider parse base mc provider modelData) = providerModelSnapshots mc"
proof -
  have snap: "providerModelSnapshots (UpsertModelDataForProvider parse base mc provider modelData discoveryErr) = providerModelSnapshots mc"
    "providerModelSnapshots (UpsertUnfilteredModelDataForProvider parse base mc provider modelData) = providerModelSnapshots mc"
    using assms
    by (simp_all add: UpsertModelDataForProvider_def UpsertUnfilteredModelDataForProvider_def
        Let_def persist_keeps_pools split: option.splits)
  have tier: "GetModelsForProvider (UpsertModelDataForProvider parse base mc provider modelData discoveryErr) provider = pool \<and>
      mapGet [] (providerModelSources (UpsertModelDataForProvider parse base mc provider modelData discoveryErr)) provider = source \<and>
      GetUnfilteredModelsForProvider (UpsertUnfilteredModelDataForProvider parse base mc provider modelData) provider = pool \<and>
      mapGet [] (unfilteredProviderModelSources (UpsertUnfilteredModelDataForProvider parse base mc provider modelData)) provider = source"
    if "resolveFallbackPool mc provider = Some (pool, source)" for pool source
    using upsert_fallback [OF assms that] by simp
  show ?thesis
    using snap tier by (simp add: resolveFallbackPool_tiers)
qed

theorem upsert_fallback_precedence_witness:
  "GetModelsForProvider
     (UpsertModelDataForProvider ParseModelString (\<lambda>model. model)
        (newTestCatalog\<lparr>providerModelSnapshots := [(''glm'', [''glm-snapshot-primary''])],
           pricingData := [\<lparr>tp_Model = ''glm-pricing-only'', tp_Provider = ''glm'',
                            tp_Mode = ''chat''\<rparr>]\<rparr>)
        ''glm'' (Some \<lparr>Data = []\<rparr>) None) ''glm'' = [''glm-snapshot-primary''] \<and>
   mapGet [] (providerModelSources
     (UpsertModelDataForProvider ParseModelString (\<lambda>model. model)
        (newTestCatalog\<lparr>providerModelSnapshots := [(''glm'', [''glm-snapshot-primary''])],
           pricingData := [\<lparr>tp_Model = ''glm-pricing-only'', tp_Provider = ''glm'',
                            tp_Mode = ''chat''\<rparr>]\<rparr>)
        ''glm'' (Some \<lparr>Data = []\<rparr>) None)) ''glm'' = ''persisted_snapshot'' \<and>
   GetModelsForProvider
     (UpsertModelDataForProvider ParseModelString (\<lambda>model. model) newTestCatalog
        ''deepseek'' (Some \<lparr>Data = []\<rparr>) None) ''deepseek'' =
     [''deepseek-chat'', ''deepseek-reasoner''] \<and>
   mapGet [] (providerModelSources
     (UpsertModelDataForProvider ParseModelString (\<lambda>model. model) newTestCatalog
        ''deepseek'' (Some \<lparr>Data = []\<rparr>) None)) ''deepseek'' = ''default_seed'' \<and>
   GetUnfilteredModelsForProvider
     (UpsertUnfilteredModelDataForProvider ParseModelString (\<lambda>model. model)
        (newTestCatalog\<lparr>pricingData := [\<lparr>tp_Model = ''glm-pricing-only'',
           tp_Provider = ''glm'', tp_Mode = ''chat''\<rparr>]\<rparr>)
        ''glm'' None) ''glm'' = [''glm-pricing-only''] \<and>
   mapGet [] (unfilteredProviderModelSources
     (UpsertUnfilteredModelDataForProvider ParseModelString (\<lambda>model. model)
        (newTestCatalog\<lparr>pricingData := [\<lparr>tp_Model = ''glm-pricing-only'',
           tp_Provider = ''glm'', tp_Mode = ''chat''\<rparr>]\<rparr>)
        ''glm'' None)) ''glm'' = ''pricing_catalog''"
proof -
  have nolive: "liveDiscoveryModels ParseModelString (\<lambda>model. model) ''glm'' None = []"
    by (simp add: liveDiscoveryModels_def)
  have pricing: "pricingModelsForProvider
      (newTestCatalog\<lparr>pricingData := [\<lparr>tp_Model = ''glm-pricing-only'',
           tp_Provider = ''glm'', tp_Mode = ''chat''\<rparr>]\<rparr>) ''glm'' = [''glm-pricing-only'']"
    by (simp add: pricingModelsForProvider_def appendUniqueModels_def)
  have c: "mapGet [] (providerModelSnapshots
      (newTestCatalog\<lparr>pricingData := [\<lparr>tp_Model = ''glm-pricing-only'',
           tp_Provider = ''glm'', tp_Mode = ''chat''\<rparr>]\<rparr>)) ''glm'' = [] \<and>
    pricingModelsForProvider
      (newTestCatalog\<lparr>pricingData := [\<lparr>tp_Model = ''glm-pricing-only'',
           tp_Provider = ''glm'', tp_Mode = ''chat''\<rparr>]\<rparr>) ''glm'' \<noteq> []"
    using pricing by (simp add: mapGet_def newTestCatalog_def)
  note priced = upsert_fallback_precedence [OF nolive,
      where discoveryErr = None
      and mc = "newTestCatalog\<lparr>pricingData := [\<lparr>tp_Model = ''glm-pricing-only'',
           tp_Provider = ''glm'', tp_Mode = ''chat''\<rparr>]\<rparr>",
      THEN conjunct2, THEN conjunct1, THEN mp, OF c]
  have snapshot: "mapGet [] (providerModelSnapshots
      (newTestCatalog\<lparr>providerModelSnapshots := [(''glm'', [''glm-snapshot-primary''])],
           pricingData := [\<lparr>tp_Model = ''glm-pricing-only'', tp_Provider = ''glm'',
                            tp_Mode = ''chat''\<rparr>]\<rparr>)) ''glm'' = [''glm-snapshot-primary'']"
    by (simp add: mapGet_def)
  have untouched: "mapGet [] (providerModelSnapshots newTestCatalog) ''deepseek'' = []"
    "pricingModelsForProvider newTestCatalog ''deepseek'' = []"
    by (simp_all add: mapGet_def newTestCatalog_def pricingModelsForProvider_def
        appendUniqueModels_def)
  have seed: "getDefaultModelsForProvider ''deepseek'' = [''deepseek-chat'', ''deepseek-reasoner'']"
    by (simp add: getDefaultModelsForProvider_def defaultProviderModels_def GLM_def
        Minimax_def Deepseek_def Moonshot_def Volcengine_def Qwen_def)
  note glm = upsert_fallback_precedence [OF no_live_models_in_empty_response,
      where parse = ParseModelString and base = "\<lambda>model. model" and provider = "''glm''"
      and discoveryErr = None
      and mc = "newTestCatalog\<lparr>providerModelSnapshots :=
           [(''glm'', [''glm-snapshot-primary''])],
         pricingData := [\<lparr>tp_Model = ''glm-pricing-only'', tp_Provider = ''glm'',
                          tp_Mode = ''chat''\<rparr>]\<rparr>",
      THEN conjunct1, THEN mp]
  note deepseek = upsert_fallback_precedence [OF no_live_models_in_empty_response,
      where parse = ParseModelString and base = "\<lambda>model. model"
      and provider = "''deepseek''" and discoveryErr = None and mc = newTestCatalog,
      THEN conjunct2, THEN conjunct2, THEN conjunct1, THEN mp]
  have a: "mapGet [] (providerModelSnapshots
      (newTestCatalog\<lparr>providerModelSnapshots := [(''glm'', [''glm-snapshot-primary''])],
           pricingData := [\<lparr>tp_Model = ''glm-pricing-only'', tp_Provider = ''glm'',
                            tp_Mode = ''chat''\<rparr>]\<rparr>)) ''glm'' \<noteq> []"
    using snapshot by simp
  have b: "mapGet [] (providerModelSnapshots newTestCatalog) ''deepseek'' = [] \<and>
      pricingModelsForProvider newTestCatalog ''deepseek'' = [] \<and>
      getDefaultModelsForProvider ''deepseek'' \<noteq> []"
    by (simp add: untouched seed)
  show ?thesis
    using glm [OF a] deepseek [OF b] priced snapshot seed pricing
    by (simp add: ProviderModelSourcePersistedSnapshot_def ProviderModelSourceDefaultSeed_def
        ProviderModelSourcePricingCatalog_def)
qed

section \<open>The overall status of the report\<close>

lemma healthItem_status:
  "ph_Status (healthItem mc now p) =
     mergeProviderHealthStatus
       (dh_Status (toProviderModelDiscoveryHealth (Filtered (healthOf mc p)) now))
       (dh_Status (toProviderModelDiscoveryHealth (Unfiltered (healthOf mc p)) now))"
  by (simp add: healthItem_def Let_def healthOf_def)

lemma healthItem_provider: "ph_Provider (healthItem mc now p) = p"
  by (simp add: healthItem_def Let_def)

lemma count_list_map_distinct:
  "distinct xs \<Longrightarrow> count_list (map f xs) s = card {x \<in> set xs. f x = s}"
proof (induction xs)
  case Nil
  show ?case by simp
next
  case (Cons a xs)
  have fin: "finite {x \<in> set xs. f x = s}"
    by simp
  have notin: "a \<notin> {x \<in> set xs. f x = s}"
    using Cons.prems by simp
  show ?case
  proof (cases "f a = s")
    case True
    then have "{x \<in> set (a # xs). f x = s} = insert a {x \<in> set xs. f x = s}"
      by auto
    then show ?thesis
      using Cons True fin notin by simp
  next
    case False
    then have "{x \<in> set (a # xs). f x = s} = {x \<in> set xs. f x = s}"
      by auto
    then show ?thesis
      using Cons False by simp
  qed
qed

lemma distinct_sortedProviders: "distinct (sortedProviders mc)"
  by (simp add: sortedProviders_def providerSet_def)

text \<open>
  Claim C3. Every provider the report lists carries the merge of its two derived variant
  statuses, the listed providers are exactly the known ones (the keys of the pool,
  snapshot, source and health maps), and the summary counts the known providers per
  merged status. The overall status is derived from these counts: unknown when no
  provider is known, error when at least one provider's merged status is error, otherwise
  degraded when at least one provider is stale or degraded, otherwise healthy when at
  least one provider is healthy, otherwise unknown. The report carries the generation
  timestamp and the staleness threshold in seconds (86400).
\<close>

theorem report_overall_status:
  "(let merged = (\<lambda>p. mergeProviderHealthStatus
        (dh_Status (toProviderModelDiscoveryHealth (Filtered (healthOf mc p)) now))
        (dh_Status (toProviderModelDiscoveryHealth (Unfiltered (healthOf mc p)) now)));
        known = dom (map_of (modelPool mc)) \<union> dom (map_of (unfilteredModelPool mc)) \<union>
          dom (map_of (providerModelSnapshots mc)) \<union> dom (map_of (providerModelSources mc)) \<union>
          dom (map_of (unfilteredProviderModelSources mc)) \<union>
          dom (map_of (providerModelHealth mc));
        r = GetProviderModelSnapshotHealthReport mc now
    in rp_Status r =
         (if known = {} then ProviderModelHealthUnknown
          else if \<exists>p \<in> known. merged p = ProviderModelHealthError
            then ProviderModelHealthError
          else if \<exists>p \<in> known. merged p = ProviderModelHealthStale \<or>
                                merged p = ProviderModelHealthDegraded
            then ProviderModelHealthDegraded
          else if \<exists>p \<in> known. merged p = ProviderModelHealthHealthy
            then ProviderModelHealthHealthy
          else ProviderModelHealthUnknown) \<and>
       rp_Summary r =
         \<lparr>TotalProviders = int (card known),
          HealthyProviders = int (card {p \<in> known. merged p = ProviderModelHealthHealthy}),
          StaleProviders = int (card {p \<in> known. merged p = ProviderModelHealthStale}),
          ErrorProviders = int (card {p \<in> known. merged p = ProviderModelHealthError}),
          DegradedProviders = int (card {p \<in> known. merged p = ProviderModelHealthDegraded}),
          UnknownProviders = int (card {p \<in> known. merged p = ProviderModelHealthUnknown})\<rparr> \<and>
       ph_Provider ` set (rp_Providers r) = known \<and>
       (\<forall>item \<in> set (rp_Providers r). ph_Status item = merged (ph_Provider item)) \<and>
       rp_GeneratedAt r = now \<and>
       rp_StaleAfterSeconds r = 86400)"
proof -
  define merged where "merged = (\<lambda>p. mergeProviderHealthStatus
        (dh_Status (toProviderModelDiscoveryHealth (Filtered (healthOf mc p)) now))
        (dh_Status (toProviderModelDiscoveryHealth (Unfiltered (healthOf mc p)) now)))"
  define known where "known = dom (map_of (modelPool mc)) \<union>
          dom (map_of (unfilteredModelPool mc)) \<union>
          dom (map_of (providerModelSnapshots mc)) \<union> dom (map_of (providerModelSources mc)) \<union>
          dom (map_of (unfilteredProviderModelSources mc)) \<union>
          dom (map_of (providerModelHealth mc))"
  define r where "r = GetProviderModelSnapshotHealthReport mc now"
  define ps where "ps = sortedProviders mc"
  have set_ps: "set ps = known"
    by (simp add: ps_def known_def set_sortedProviders set_providerSet)
  have dist: "distinct ps"
    by (simp add: ps_def distinct_sortedProviders)
  have items: "rp_Providers r = map (healthItem mc now) ps"
    by (simp add: r_def ps_def report_providers)
  have sts: "map ph_Status (rp_Providers r) = map merged ps"
    by (simp add: items merged_def healthItem_status)
  have cnt: "int (count_list (map ph_Status (rp_Providers r)) s) =
      int (card {p \<in> known. merged p = s})" for s
    unfolding sts using count_list_map_distinct [OF dist, of merged s] by (simp add: set_ps)
  have len: "int (length (rp_Providers r)) = int (card known)"
    using distinct_card [OF dist] by (simp add: items set_ps)
  have summ: "rp_Summary r =
      fold countStatus (map ph_Status (rp_Providers r)) zeroSummary"
    unfolding r_def by (rule report_summary)
  have fields:
    "TotalProviders (rp_Summary r) = int (card known)"
    "HealthyProviders (rp_Summary r) =
       int (card {p \<in> known. merged p = ProviderModelHealthHealthy})"
    "StaleProviders (rp_Summary r) = int (card {p \<in> known. merged p = ProviderModelHealthStale})"
    "ErrorProviders (rp_Summary r) = int (card {p \<in> known. merged p = ProviderModelHealthError})"
    "DegradedProviders (rp_Summary r) =
       int (card {p \<in> known. merged p = ProviderModelHealthDegraded})"
    "UnknownProviders (rp_Summary r) =
       int (card {p \<in> known. merged p = ProviderModelHealthUnknown})"
    using fold_countStatus_fields [of "map ph_Status (rp_Providers r)" zeroSummary]
    by (simp_all add: summ zeroSummary_def cnt len)
  have fin: "finite known"
    using set_ps [symmetric] by simp
  have pos: "(0 < int (card {p \<in> known. merged p = s})) = (\<exists>p \<in> known. merged p = s)" for s
  proof -
    have "finite {p \<in> known. merged p = s}"
      using fin by simp
    then have "(card {p \<in> known. merged p = s} = 0) = ({p \<in> known. merged p = s} = {})"
      by simp
    then show ?thesis
      by auto
  qed
  have zero: "(int (card known) = 0) = (known = {})"
    using fin by simp
  have st: "rp_Status r = reportStatus (rp_Summary r)"
    unfolding r_def by (rule report_status)
  have a: "rp_Status r =
         (if known = {} then ProviderModelHealthUnknown
          else if \<exists>p \<in> known. merged p = ProviderModelHealthError
            then ProviderModelHealthError
          else if \<exists>p \<in> known. merged p = ProviderModelHealthStale \<or>
                                merged p = ProviderModelHealthDegraded
            then ProviderModelHealthDegraded
          else if \<exists>p \<in> known. merged p = ProviderModelHealthHealthy
            then ProviderModelHealthHealthy
          else ProviderModelHealthUnknown)"
    unfolding st reportStatus_def fields pos zero by auto
  have b: "rp_Summary r =
         \<lparr>TotalProviders = int (card known),
          HealthyProviders = int (card {p \<in> known. merged p = ProviderModelHealthHealthy}),
          StaleProviders = int (card {p \<in> known. merged p = ProviderModelHealthStale}),
          ErrorProviders = int (card {p \<in> known. merged p = ProviderModelHealthError}),
          DegradedProviders = int (card {p \<in> known. merged p = ProviderModelHealthDegraded}),
          UnknownProviders = int (card {p \<in> known. merged p = ProviderModelHealthUnknown})\<rparr>"
    using fields by (cases "rp_Summary r") simp
  have c: "ph_Provider ` set (rp_Providers r) = known"
    using set_ps by (simp add: items image_image healthItem_provider)
  have d: "\<forall>item \<in> set (rp_Providers r). ph_Status item = merged (ph_Provider item)"
    by (auto simp: items merged_def healthItem_status healthItem_provider)
  have e: "rp_GeneratedAt r = now"
    by (simp add: r_def GetProviderModelSnapshotHealthReport_def split: prod.splits)
  have f: "rp_StaleAfterSeconds r = 86400"
    by (simp add: r_def GetProviderModelSnapshotHealthReport_def stale_after_seconds
        split: prod.splits)
  show ?thesis
    unfolding Let_def
    using a b c d e f unfolding merged_def known_def r_def
    by (intro conjI)
qed

text \<open>
  Scenario C of the specification: a success 48 hours old with no newer activity makes
  the provider stale and, no provider being in error, the report degraded.
\<close>

theorem report_overall_status_witness:
  "rp_Status (GetProviderModelSnapshotHealthReport staleTestCatalog 172800000001000) =
     ProviderModelHealthDegraded \<and>
   rp_Summary (GetProviderModelSnapshotHealthReport staleTestCatalog 172800000001000) =
     \<lparr>TotalProviders = 1, HealthyProviders = 0, StaleProviders = 1, ErrorProviders = 0,
      DegradedProviders = 0, UnknownProviders = 0\<rparr> \<and>
   ph_Provider ` set (rp_Providers
      (GetProviderModelSnapshotHealthReport staleTestCatalog 172800000001000)) =
     {''moonshot''} \<and>
   ph_Status (healthItem staleTestCatalog 172800000001000 ''moonshot'') =
     ProviderModelHealthStale \<and>
   rp_GeneratedAt (GetProviderModelSnapshotHealthReport staleTestCatalog 172800000001000) =
     172800000001000 \<and>
   rp_StaleAfterSeconds (GetProviderModelSnapshotHealthReport staleTestCatalog
      172800000001000) = 86400"
proof -
  have known: "dom (map_of (modelPool staleTestCatalog)) \<union>
      dom (map_of (unfilteredModelPool staleTestCatalog)) \<union>
      dom (map_of (providerModelSnapshots staleTestCatalog)) \<union>
      dom (map_of (providerModelSources staleTestCatalog)) \<union>
      dom (map_of (unfilteredProviderModelSources staleTestCatalog)) \<union>
      dom (map_of (providerModelHealth staleTestCatalog)) = {''moonshot''}"
    by (simp add: staleTestCatalog_def newTestCatalog_def)
  have stale: "mergeProviderHealthStatus
        (dh_Status (toProviderModelDiscoveryHealth
           (Filtered (healthOf staleTestCatalog ''moonshot'')) 172800000001000))
        (dh_Status (toProviderModelDiscoveryHealth
           (Unfiltered (healthOf staleTestCatalog ''moonshot'')) 172800000001000)) =
      ProviderModelHealthStale"
    by (simp add: staleTestCatalog_health toProviderModelDiscoveryHealth_def
        Let_def IsZero_def Before_def Sub_gt_iff mergeProviderHealthStatus_def)
  have member: "healthItem staleTestCatalog 172800000001000 ''moonshot'' \<in>
      set (rp_Providers (GetProviderModelSnapshotHealthReport staleTestCatalog 172800000001000))"
    by (simp add: report_providers staleTestCatalog_providers)
  note inst = report_overall_status [of staleTestCatalog 172800000001000,
      unfolded Let_def known]
  note item = inst [THEN conjunct2, THEN conjunct2, THEN conjunct2, THEN conjunct1,
      rule_format, OF member]
  have status: "ph_Status (healthItem staleTestCatalog 172800000001000 ''moonshot'') =
      ProviderModelHealthStale"
    using item stale by (simp add: healthItem_provider)
  have summary: "rp_Summary
      (GetProviderModelSnapshotHealthReport staleTestCatalog 172800000001000) =
     \<lparr>TotalProviders = 1, HealthyProviders = 0, StaleProviders = 1, ErrorProviders = 0,
      DegradedProviders = 0, UnknownProviders = 0\<rparr>"
    using inst [THEN conjunct2, THEN conjunct1] by (simp add: stale Collect_conv_if)
  have overall: "rp_Status
      (GetProviderModelSnapshotHealthReport staleTestCatalog 172800000001000) =
     ProviderModelHealthDegraded"
    using inst [THEN conjunct1] by (simp add: stale)
  show ?thesis
    using overall summary status
      inst [THEN conjunct2, THEN conjunct2, THEN conjunct1]
      inst [THEN conjunct2, THEN conjunct2, THEN conjunct2, THEN conjunct2]
    by simp
qed

end
